theory Spec2Isabelle
  imports Main "HOL-Library.Word"
begin

section \<open>Kubernetes API machinery: the shapes the controllers read\<close>

text \<open>
  A Go \<^verbatim>\<open>map[string]string\<close> is a partial function. The nil map and the empty map are
  both \<open>Map.empty\<close>: the controllers only read label maps, and reading treats the two
  alike. (\<^verbatim>\<open>reflect.DeepEqual\<close>, by which controller-runtime tells whether labels
  changed, does tell a nil map from an empty one; a service that carries the required base
  labels has neither.)
\<close>

type_synonym labelMap = "string \<rightharpoonup> string"

text \<open>\<^verbatim>\<open>metav1.ObjectMeta\<close>: the fields the controllers and their watch predicates read.\<close>

record ObjectMeta =
  Name :: string
  Namespace :: string
  Labels :: labelMap
  Generation :: int

text \<open>
  \<^verbatim>\<open>corev1.Service\<close>. The controller itself reads only a service's metadata; what else a
  service carries (its ports) is visible here only through
  \<^verbatim>\<open>manifests.IsGrpcServiceWithLabels\<close>, so the ports are kept as (name, number) pairs.
\<close>

record Service = ObjectMeta +
  SvcPorts :: "(string \<times> int) list"

text \<open>The getters of \<^verbatim>\<open>metav1.Object\<close>.\<close>

abbreviation GetName :: "'a ObjectMeta_scheme \<Rightarrow> string" where
  "GetName \<equiv> ObjectMeta.Name"

abbreviation GetNamespace :: "'a ObjectMeta_scheme \<Rightarrow> string" where
  "GetNamespace \<equiv> ObjectMeta.Namespace"

abbreviation GetLabels :: "'a ObjectMeta_scheme \<Rightarrow> labelMap" where
  "GetLabels \<equiv> ObjectMeta.Labels"

abbreviation GetGeneration :: "'a ObjectMeta_scheme \<Rightarrow> int" where
  "GetGeneration \<equiv> ObjectMeta.Generation"

text \<open>\<^verbatim>\<open>metav1.HasLabel\<close>: the key is present in the label map, whatever its value.\<close>

definition HasLabel :: "'a ObjectMeta_scheme \<Rightarrow> string \<Rightarrow> bool" where
  "HasLabel obj label = (GetLabels obj label \<noteq> None)"

text \<open>\<^verbatim>\<open>metav1.LabelSelector\<close> and its requirements.\<close>

record LabelSelectorRequirement =
  Key :: string
  Operator :: string
  Values :: "string list"

record LabelSelector =
  MatchLabels :: labelMap
  MatchExpressions :: "LabelSelectorRequirement list"

text \<open>\<^verbatim>\<open>types.NamespacedName\<close> and \<^verbatim>\<open>reconcile.Request\<close>.\<close>

record NamespacedName =
  nnName :: string
  nnNamespace :: string

record Request =
  NamespacedName :: NamespacedName

text \<open>\<^verbatim>\<open>ctrl.Result\<close>; \<^verbatim>\<open>ctrl.Result{}\<close> is the value with no requeue.\<close>

record Result =
  Requeue :: bool
  RequeueAfter :: int

definition emptyResult :: Result where
  "emptyResult = \<lparr>Requeue = False, RequeueAfter = 0\<rparr>"

text \<open>
  Go errors. Errors that come back from the API client are opaque apart from
  \<^verbatim>\<open>apierrors.IsNotFound\<close>; the errors the controllers build themselves with
  \<^verbatim>\<open>fmt.Errorf\<close> keep their format string and its arguments, as do the messages built
  with \<^verbatim>\<open>fmt.Sprintf\<close>.
\<close>

datatype error =
    StatusNotFound string
  | ApiError string
  | Errorf string "arg list"
and arg =
    ArgError error
  | ArgString string
  | ArgInt int

fun IsNotFound :: "error \<Rightarrow> bool" where
  "IsNotFound (StatusNotFound _) = True"
| "IsNotFound _ = False"

text \<open>\<^verbatim>\<open>controllerutil.OperationResult\<close>.\<close>

datatype OperationResult =
    OperationResultNone
  | OperationResultCreated
  | OperationResultUpdated

text \<open>\<^verbatim>\<open>resource.Quantity\<close>, kept in its canonical text form.\<close>

datatype Quantity = Quantity string

text \<open>Kubernetes types that only pass through the controllers, never inspected.\<close>

typedecl Container
typedecl Volume
typedecl VolumeMount
typedecl ContainerPort
typedecl EnvVar
typedecl ServicePort
typedecl ResourceRequirements
typedecl CacheConfig

section \<open>The custom resources (package api/v1alpha1)\<close>

text \<open>
  The resource types are declared in package \<^verbatim>\<open>api/v1alpha1\<close>; the records below hold
  the fields that the two controllers read, with Go pointers as options.
\<close>

record Additional =
  Args :: "string list"
  Containers :: "Container list"
  Volumes :: "Volume list"
  VolumeMounts :: "VolumeMount list"
  Ports :: "ContainerPort list"
  Env :: "EnvVar list"
  ServicePorts :: "ServicePort list"

record CommonFields =
  Labels :: labelMap
  Image :: "string option"
  LogLevel :: "string option"
  LogFormat :: "string option"
  ResourceRequirements :: "ResourceRequirements option"
  Additional :: Additional
  Paused :: "bool option"

record QueryFrontendSpec = CommonFields +
  Replicas :: int
  CompressResponses :: bool
  QueryRangeResponseCacheConfig :: "CacheConfig option"
  QueryRangeSplitInterval :: "string option"
  LabelsSplitInterval :: "string option"
  QueryRangeMaxRetries :: int
  LabelsMaxRetries :: int
  LabelsDefaultTimeRange :: "string option"
  LogQueriesLongerThan :: "string option"

record ThanosQuerySpec = CommonFields +
  Replicas :: int
  QuerierReplicaLabels :: "string list"
  StoreLabelSelector :: "LabelSelector option"
  QueryFrontend :: "QueryFrontendSpec option"

record ShardingStrategy =
  Shards :: int
  ShardReplicas :: int

record ObjectStorageConfig =
  SecretName :: string
  SecretKey :: string

record ThanosStoreSpec = CommonFields +
  ShardingStrategy :: ShardingStrategy
  ObjectStorageConfig :: ObjectStorageConfig
  IndexCacheConfig :: "CacheConfig option"
  CachingBucketConfig :: "CacheConfig option"
  MinTime :: "string option"
  MaxTime :: "string option"
  IgnoreDeletionMarksDelay :: string
  StorageSize :: string

record 'spec Resource = ObjectMeta +
  Spec :: 'spec

type_synonym ThanosQuery = "ThanosQuerySpec Resource"
type_synonym ThanosStore = "ThanosStoreSpec Resource"

section \<open>Inputs of the manifest builders (packages under internal/pkg/manifests)\<close>

text \<open>
  \<^verbatim>\<open>manifestquery.EndpointType\<close> is a string type; the zero value of an
  \<^verbatim>\<open>Endpoint\<close> has the empty string there.
\<close>

type_synonym EndpointType = string

record Endpoint =
  ServiceName :: string
  Port :: int
  Namespace :: string
  Type :: EndpointType

definition zeroEndpoint :: Endpoint where
  "zeroEndpoint = \<lparr>ServiceName = [], Port = 0, Endpoint.Namespace = [], Type = []\<rparr>"

record Options =
  Name :: string
  Namespace :: string
  Replicas :: int
  Labels :: labelMap
  Image :: "string option"
  LogLevel :: "string option"
  LogFormat :: "string option"
  ResourceRequirements :: "ResourceRequirements option"
  Additional :: Additional

record QueryOptions =
  Options :: Options
  ReplicaLabels :: "string list"
  Timeout :: string
  LookbackDelta :: string
  MaxConcurrent :: int
  Endpoints :: "Endpoint list"

record QueryFrontendOptions =
  Options :: Options
  QueryService :: string
  QueryPort :: int
  LogQueriesLongerThan :: string
  CompressResponses :: bool
  ResponseCacheConfig :: "CacheConfig option"
  RangeSplitInterval :: string
  LabelsSplitInterval :: string
  RangeMaxRetries :: int
  LabelsMaxRetries :: int
  LabelsDefaultTimeRange :: string

record SecretKeySelector =
  LocalObjectReference :: string
  SelectorKey :: string
  Optional :: "bool option"

record StoreOptions =
  Options :: Options
  ObjStoreSecret :: SecretKeySelector
  IndexCacheConfig :: "CacheConfig option"
  CachingBucketConfig :: "CacheConfig option"
  Min :: string
  Max :: string
  IgnoreDeletionMarksDelay :: string
  Additional :: Additional
  StorageSize :: Quantity
  Shards :: int

section \<open>Collaborators: the manifest packages and the libraries\<close>

text \<open>
  The controllers call into the repository's manifest packages
  (\<^verbatim>\<open>manifests\<close>, \<^verbatim>\<open>manifestquery\<close>, \<^verbatim>\<open>manifestqueryfrontend\<close>,
  \<^verbatim>\<open>manifestsstore\<close>) and its API package. Their constants and functions are taken as
  parameters, one field for each, under the name the controllers use; \<open>'obj\<close> is
  \<^verbatim>\<open>client.Object\<close> and \<open>'sel\<close> is \<^verbatim>\<open>labels.Selector\<close>.
\<close>

record ('obj, 'sel) manifests =
  DefaultStoreAPILabel :: string
  DefaultStoreAPIValue :: string
  PartOfLabel :: string
  DefaultPartOfLabel :: string
  IsGrpcServiceWithLabels :: "Service \<Rightarrow> labelMap \<Rightarrow> int \<times> bool"
  BuildLabelSelectorFrom :: "LabelSelector option \<Rightarrow> labelMap \<Rightarrow> error + 'sel"
  IsNamespacedResource :: "'obj \<Rightarrow> bool"
  MergeLabels :: "labelMap \<Rightarrow> labelMap \<Rightarrow> labelMap"
  OptionalToString :: "string option \<Rightarrow> string"
  ApplyDefaults :: "Options \<Rightarrow> Options"
  ToSecretKeySelector :: "ObjectStorageConfig \<Rightarrow> SecretKeySelector"
  QueryName :: string
  RegularLabel :: EndpointType
  StrictLabel :: EndpointType
  GroupStrictLabel :: EndpointType
  GroupLabel :: EndpointType
  HTTPPort :: int
  BuildQuery :: "QueryOptions \<Rightarrow> 'obj list"
  BuildQueryFrontend :: "QueryFrontendOptions \<Rightarrow> 'obj list"
  StoreName :: string
  BuildStores :: "StoreOptions \<Rightarrow> 'obj list"

section \<open>Observable state: cluster, metrics, events, log\<close>

datatype EventType = EventTypeNormal | EventTypeWarning

text \<open>An event message: a format string and the arguments \<^verbatim>\<open>fmt.Sprintf\<close> is given.\<close>

datatype message = Sprintf string "arg list"

record Event =
  InvolvedObject :: ObjectMeta
  EventType :: EventType
  Reason :: string
  Message :: message

text \<open>Log lines, without their key/value pairs.\<close>

datatype LogEntry =
    LogInfo string
  | LogV1Info string
  | LogError error string

text \<open>
  Prometheus counters hold \<^verbatim>\<open>float64\<close>; they only ever receive whole numbers here
  (\<^verbatim>\<open>Inc\<close>, or \<^verbatim>\<open>Add\<close> of an integer converted to \<^verbatim>\<open>float64\<close>), so a counter is an
  \<open>int\<close>, and a counter vector a function of its label values.
\<close>

record 'c world =
  cluster :: 'c
  ReconciliationsTotal :: "string \<Rightarrow> int"
  ReconciliationsFailedTotal :: "string \<Rightarrow> int"
  ClientErrorsTotal :: "string \<Rightarrow> int"
  EndpointsConfigured :: "string \<times> string \<times> string \<Rightarrow> int"
  ServiceWatchesReconciliationsTotal :: int
  events :: "Event list"
  logs :: "LogEntry list"

definition RecorderEvent ::
  "'a ObjectMeta_scheme \<Rightarrow> EventType \<Rightarrow> string \<Rightarrow> message \<Rightarrow> 'c world \<Rightarrow> 'c world" where
  "RecorderEvent obj t reason msg w =
     w\<lparr>events := events w @
        [\<lparr>InvolvedObject = ObjectMeta.truncate obj, EventType = t, Reason = reason, Message = msg\<rparr>]\<rparr>"

definition logger :: "LogEntry \<Rightarrow> 'c world \<Rightarrow> 'c world" where
  "logger l w = w\<lparr>logs := logs w @ [l]\<rparr>"

definition AddCounter :: "('k \<Rightarrow> int) \<Rightarrow> 'k \<Rightarrow> int \<Rightarrow> ('k \<Rightarrow> int)" where
  "AddCounter vec k n = vec(k := vec k + n)"

section \<open>The libraries: controller-runtime, the API client, apimachinery\<close>

text \<open>The events of a watch on services, and the predicates that filter them.\<close>

datatype WatchEvent =
    CreateEvent Service
  | UpdateEvent Service Service
  | DeleteEvent Service
  | GenericEvent Service

type_synonym Predicate = "WatchEvent \<Rightarrow> bool"

text \<open>
  The API client, \<^verbatim>\<open>controllerutil\<close>, the selector library and the quantity parser
  are libraries. Each call is a function of the cluster state \<open>'c\<close> it reads; a call
  that writes returns the new cluster state, and a call that fails returns the error and
  leaves the cluster as it was. \<^verbatim>\<open>CreateOrUpdate\<close> is given the object as built: the
  mutate function the controllers pass it comes from a deep copy of that same object.
  \<^verbatim>\<open>ParseQuantity\<close> gives \<open>None\<close> where the Go function returns an error.
  \<^verbatim>\<open>EnqueueRequestsFromMapFunc\<close> turns a map function into the handler of watch events.
\<close>

record ('obj, 'c, 'sel) kube =
  GetThanosQuery :: "'c \<Rightarrow> NamespacedName \<Rightarrow> error + ThanosQuery"
  GetThanosStore :: "'c \<Rightarrow> NamespacedName \<Rightarrow> error + ThanosStore"
  ListServices :: "'c \<Rightarrow> 'sel \<Rightarrow> string \<Rightarrow> error + Service list"
  ListThanosQueries :: "'c \<Rightarrow> string \<Rightarrow> error + ThanosQuery list"
  SetNamespace :: "'obj \<Rightarrow> string \<Rightarrow> 'obj"
  SetControllerReference :: "ObjectMeta \<Rightarrow> 'obj \<Rightarrow> error + 'obj"
  CreateOrUpdate :: "'c \<Rightarrow> 'obj \<Rightarrow> error + OperationResult \<times> 'c"
  Matches :: "'sel \<Rightarrow> labelMap \<Rightarrow> bool"
  LabelSelectorAsSelector :: "LabelSelector \<Rightarrow> error + 'sel"
  ParseQuantity :: "string \<Rightarrow> Quantity option"
  ObjectGetName :: "'obj \<Rightarrow> string"
  EnqueueRequestsFromMapFunc ::
    "('c world \<Rightarrow> Service \<Rightarrow> 'c world \<times> Request list) \<Rightarrow>
     'c world \<Rightarrow> WatchEvent \<Rightarrow> 'c world \<times> Request list"

section \<open>The ThanosQuery controller\<close>

text \<open>The package variable \<^verbatim>\<open>requiredStoreServiceLabels\<close>, a map literal of two entries.\<close>

definition requiredStoreServiceLabels :: "('obj, 'sel) manifests \<Rightarrow> labelMap" where
  "requiredStoreServiceLabels M =
     [DefaultStoreAPILabel M \<mapsto> DefaultStoreAPIValue M, PartOfLabel M \<mapsto> DefaultPartOfLabel M]"

definition getServiceTypeFromLabel ::
  "('obj, 'sel) manifests \<Rightarrow> 'a ObjectMeta_scheme \<Rightarrow> EndpointType" where
  "getServiceTypeFromLabel M objMeta =
     (let etype = RegularLabel M in
      if HasLabel objMeta (StrictLabel M) then StrictLabel M
      else if HasLabel objMeta (GroupStrictLabel M) then GroupStrictLabel M
      else if HasLabel objMeta (GroupLabel M) then GroupLabel M
      else etype)"

text \<open>
  \<^verbatim>\<open>getStoreAPIServiceEndpoints\<close>, the loop over \<^verbatim>\<open>services.Items\<close>: \<open>i\<close> is the
  index of the service at hand, and \<open>endpoints\<close> the slice made before the loop with one
  entry for each listed service.
\<close>

fun endpointsLoop ::
  "('obj, 'sel) manifests \<Rightarrow> ThanosQuery \<Rightarrow> nat \<Rightarrow> Service list \<Rightarrow>
   'c world \<times> Endpoint list \<Rightarrow> 'c world \<times> Endpoint list" where
  "endpointsLoop M query i [] (w, endpoints) = (w, endpoints)"
| "endpointsLoop M query i (svc # rest) (w, endpoints) =
     (case IsGrpcServiceWithLabels M svc (requiredStoreServiceLabels M) of
        (port, ok) \<Rightarrow>
          if \<not> ok then
            endpointsLoop M query (Suc i) rest
              (logger (LogError
                 (Errorf ''service %s/%s is missing required gRPC port''
                    [ArgString (GetNamespace svc), ArgString (GetName svc)])
                 ''failed to get gRPC port for service'') w,
               endpoints)
          else
            (let etype = getServiceTypeFromLabel M svc in
             endpointsLoop M query (Suc i) rest
               (w\<lparr>EndpointsConfigured :=
                    AddCounter (EndpointsConfigured w) (etype, GetName query, GetNamespace query) 1\<rparr>,
                endpoints[i := \<lparr>ServiceName = GetName svc, Port = port,
                                  Endpoint.Namespace = GetNamespace svc, Type = etype\<rparr>])))"

definition getStoreAPIServiceEndpoints ::
  "('obj, 'sel) manifests \<Rightarrow> ('obj, 'c, 'sel) kube \<Rightarrow> 'c world \<Rightarrow> ThanosQuery \<Rightarrow>
   'c world \<times> (error + Endpoint list)" where
  "getStoreAPIServiceEndpoints M K w query =
     (case BuildLabelSelectorFrom M (StoreLabelSelector (Spec query)) (requiredStoreServiceLabels M) of
        Inl err \<Rightarrow> (w, Inl err)
      | Inr labelSelector \<Rightarrow>
          (case ListServices K (cluster w) labelSelector (ObjectMeta.Namespace query) of
             Inl err \<Rightarrow> (w, Inl err)
           | Inr items \<Rightarrow>
               if length items = 0 then
                 (RecorderEvent query EventTypeWarning ''NoEndpointsFound''
                    (Sprintf ''No StoreAPI services found'' []) w,
                  Inr [])
               else
                 (case endpointsLoop M query 0 items (w, replicate (length items) zeroEndpoint) of
                    (w', endpoints) \<Rightarrow> (w', Inr endpoints))))"

definition buildQuerier ::
  "('obj, 'sel) manifests \<Rightarrow> ('obj, 'c, 'sel) kube \<Rightarrow> 'c world \<Rightarrow> ThanosQuery \<Rightarrow>
   'c world \<times> (error + 'obj list)" where
  "buildQuerier M K w query =
     (let metaOpts =
        \<lparr>Options.Name = GetName query,
         Options.Namespace = GetNamespace query,
         Options.Replicas = ThanosQuerySpec.Replicas (Spec query),
         Options.Labels = MergeLabels M (GetLabels query) (CommonFields.Labels (Spec query)),
         Options.Image = CommonFields.Image (Spec query),
         Options.LogLevel = CommonFields.LogLevel (Spec query),
         Options.LogFormat = CommonFields.LogFormat (Spec query),
         Options.ResourceRequirements = CommonFields.ResourceRequirements (Spec query),
         Options.Additional =
           \<lparr>Args = Args (CommonFields.Additional (Spec query)),
            Containers = Containers (CommonFields.Additional (Spec query)),
            Volumes = Volumes (CommonFields.Additional (Spec query)),
            VolumeMounts = VolumeMounts (CommonFields.Additional (Spec query)),
            Ports = Ports (CommonFields.Additional (Spec query)),
            Env = Env (CommonFields.Additional (Spec query)),
            ServicePorts = ServicePorts (CommonFields.Additional (Spec query))\<rparr>\<rparr>
      in case getStoreAPIServiceEndpoints M K w query of
           (w', Inl err) \<Rightarrow> (w', Inl err)
         | (w', Inr endpoints) \<Rightarrow>
             (w', Inr (BuildQuery M
                \<lparr>QueryOptions.Options = metaOpts,
                 ReplicaLabels = QuerierReplicaLabels (Spec query),
                 Timeout = ''15m'',
                 LookbackDelta = ''5m'',
                 MaxConcurrent = 20,
                 Endpoints = endpoints\<rparr>)))"

text \<open>
  \<^verbatim>\<open>buildQueryFrontend\<close> reads through the pointer \<^verbatim>\<open>query.Spec.QueryFrontend\<close>; its one
  caller has checked the pointer, and hands over what it points to as \<open>frontend\<close>.
\<close>

definition buildQueryFrontend ::
  "('obj, 'sel) manifests \<Rightarrow> ThanosQuery \<Rightarrow> QueryFrontendSpec \<Rightarrow> 'obj list" where
  "buildQueryFrontend M query frontend =
     (let metaOpts =
        \<lparr>Options.Name = GetName query @ ''-frontend'',
         Options.Namespace = GetNamespace query,
         Options.Replicas = QueryFrontendSpec.Replicas frontend,
         Options.Labels = GetLabels query,
         Options.Image = CommonFields.Image frontend,
         Options.LogLevel = CommonFields.LogLevel frontend,
         Options.LogFormat = CommonFields.LogFormat frontend,
         Options.ResourceRequirements = CommonFields.ResourceRequirements frontend,
         Options.Additional =
           \<lparr>Args = Args (CommonFields.Additional frontend),
            Containers = Containers (CommonFields.Additional frontend),
            Volumes = Volumes (CommonFields.Additional frontend),
            VolumeMounts = VolumeMounts (CommonFields.Additional frontend),
            Ports = Ports (CommonFields.Additional frontend),
            Env = Env (CommonFields.Additional frontend),
            ServicePorts = ServicePorts (CommonFields.Additional frontend)\<rparr>\<rparr>
      in BuildQueryFrontend M
           \<lparr>QueryFrontendOptions.Options = metaOpts,
            QueryService = GetName query,
            QueryPort = HTTPPort M,
            QueryFrontendOptions.LogQueriesLongerThan =
              OptionalToString M (QueryFrontendSpec.LogQueriesLongerThan frontend),
            QueryFrontendOptions.CompressResponses = QueryFrontendSpec.CompressResponses frontend,
            ResponseCacheConfig = QueryRangeResponseCacheConfig frontend,
            RangeSplitInterval = OptionalToString M (QueryRangeSplitInterval frontend),
            QueryFrontendOptions.LabelsSplitInterval =
              OptionalToString M (QueryFrontendSpec.LabelsSplitInterval frontend),
            RangeMaxRetries = QueryRangeMaxRetries frontend,
            QueryFrontendOptions.LabelsMaxRetries = QueryFrontendSpec.LabelsMaxRetries frontend,
            QueryFrontendOptions.LabelsDefaultTimeRange =
              OptionalToString M (QueryFrontendSpec.LabelsDefaultTimeRange frontend)\<rparr>)"

text \<open>
  The body of the loop of \<^verbatim>\<open>syncResources\<close> for one object. \<open>errCount\<close> is an
  \<^verbatim>\<open>int32\<close>: \<open>+ 1\<close> wraps around.
\<close>

definition ThanosQuery_syncObject ::
  "('obj, 'sel) manifests \<Rightarrow> ('obj, 'c, 'sel) kube \<Rightarrow> ThanosQuery \<Rightarrow> 'obj \<Rightarrow>
   'c world \<times> 32 word \<Rightarrow> 'c world \<times> 32 word" where
  "ThanosQuery_syncObject M K query obj st =
     (case st of (w, errCount) \<Rightarrow>
        (case (if IsNamespacedResource M obj
               then SetControllerReference K (ObjectMeta.truncate query)
                      (SetNamespace K obj (ObjectMeta.Namespace query))
               else Inr obj) of
           Inl err \<Rightarrow>
             (logger (LogError err ''failed to set controller owner reference to resource'') w,
              errCount + 1)
         | Inr obj' \<Rightarrow>
             (case CreateOrUpdate K (cluster w) obj' of
                Inl err \<Rightarrow>
                  (logger (LogError err ''failed to create or update resource'') w, errCount + 1)
              | Inr (op, c') \<Rightarrow>
                  (logger (LogV1Info ''resource configured'') (w\<lparr>cluster := c'\<rparr>), errCount))))"

fun ThanosQuery_syncObjects ::
  "('obj, 'sel) manifests \<Rightarrow> ('obj, 'c, 'sel) kube \<Rightarrow> ThanosQuery \<Rightarrow> 'obj list \<Rightarrow>
   'c world \<times> 32 word \<Rightarrow> 'c world \<times> 32 word" where
  "ThanosQuery_syncObjects M K query [] st = st"
| "ThanosQuery_syncObjects M K query (obj # objs) st =
     ThanosQuery_syncObjects M K query objs (ThanosQuery_syncObject M K query obj st)"

text \<open>What \<^verbatim>\<open>syncResources\<close> does after its loop, from the final \<open>errCount\<close>.\<close>

definition ThanosQuery_syncResult ::
  "('obj, 'sel) manifests \<Rightarrow> 'c world \<times> 32 word \<Rightarrow> 'c world \<times> error option" where
  "ThanosQuery_syncResult M st =
     (case st of (w, errCount) \<Rightarrow>
        if 0 <s errCount then
          (w\<lparr>ClientErrorsTotal := AddCounter (ClientErrorsTotal w) (QueryName M) (sint errCount)\<rparr>,
           Some (Errorf
             ''failed to create or update %d resources for the querier and query frontend''
             [ArgInt (sint errCount)]))
        else (w, None))"

definition ThanosQuery_syncResources ::
  "('obj, 'sel) manifests \<Rightarrow> ('obj, 'c, 'sel) kube \<Rightarrow> 'c world \<Rightarrow> ThanosQuery \<Rightarrow>
   'c world \<times> error option" where
  "ThanosQuery_syncResources M K w query =
     (case buildQuerier M K w query of
        (w1, Inl err) \<Rightarrow> (w1, Some err)
      | (w1, Inr querierObjs) \<Rightarrow>
          (let objs = [] @ querierObjs in
           case (case QueryFrontend (Spec query) of
                   None \<Rightarrow> (w1, objs)
                 | Some frontend \<Rightarrow>
                     (RecorderEvent query EventTypeNormal ''BuildingQueryFrontend''
                        (Sprintf ''Building Query Frontend resources'' []) w1,
                      objs @ buildQueryFrontend M query frontend)) of
             (w2, objs') \<Rightarrow>
               ThanosQuery_syncResult M (ThanosQuery_syncObjects M K query objs' (w2, 0))))"

definition zeroObjectMeta :: ObjectMeta where
  "zeroObjectMeta = \<lparr>ObjectMeta.Name = [], ObjectMeta.Namespace = [],
     ObjectMeta.Labels = Map.empty, Generation = 0\<rparr>"

definition ThanosQuery_Reconcile ::
  "('obj, 'sel) manifests \<Rightarrow> ('obj, 'c, 'sel) kube \<Rightarrow> 'c world \<Rightarrow> Request \<Rightarrow>
   'c world \<times> Result \<times> error option" where
  "ThanosQuery_Reconcile M K w req =
     (let w0 = w\<lparr>ReconciliationsTotal := AddCounter (ReconciliationsTotal w) (QueryName M) 1\<rparr> in
      case GetThanosQuery K (cluster w0) (NamespacedName req) of
        Inl err \<Rightarrow>
          (let w1 = w0\<lparr>ClientErrorsTotal := AddCounter (ClientErrorsTotal w0) (QueryName M) 1\<rparr> in
           if IsNotFound err then
             (logger (LogInfo
                ''thanos query resource not found. ignoring since object may be deleted'') w1,
              emptyResult, None)
           else
             (let w2 = logger (LogError err ''failed to get ThanosQuery'') w1;
                  w3 = w2\<lparr>ReconciliationsFailedTotal :=
                          AddCounter (ReconciliationsFailedTotal w2) (QueryName M) 1\<rparr>;
                  w4 = RecorderEvent zeroObjectMeta EventTypeWarning ''GetFailed''
                         (Sprintf ''Failed to get ThanosQuery resource'' []) w3
              in (w4, emptyResult, Some err)))
      | Inr query \<Rightarrow>
          if (case Paused (Spec query) of None \<Rightarrow> False | Some paused \<Rightarrow> paused) then
            (RecorderEvent query EventTypeNormal ''Paused''
               (Sprintf ''Reconciliation is paused for ThanosQuery resource'' [])
               (logger (LogInfo ''reconciliation is paused for ThanosQuery resource'') w0),
             emptyResult, None)
          else
            (case ThanosQuery_syncResources M K w0 query of
               (w1, Some err) \<Rightarrow>
                 (RecorderEvent query EventTypeWarning ''SyncFailed''
                    (Sprintf ''Failed to sync resources: %v'' [ArgError err])
                    (w1\<lparr>ReconciliationsFailedTotal :=
                          AddCounter (ReconciliationsFailedTotal w1) (QueryName M) 1\<rparr>),
                  emptyResult, Some err)
             | (w1, None) \<Rightarrow> (w1, emptyResult, None)))"

subsection \<open>Watching services\<close>

text \<open>
  The predicates of controller-runtime that \<^verbatim>\<open>SetupWithManager\<close> combines. A predicate
  built by \<^verbatim>\<open>NewPredicateFuncs\<close> applies its filter to the object of the event, the
  new object for an update. \<^verbatim>\<open>LabelChangedPredicate\<close> and
  \<^verbatim>\<open>GenerationChangedPredicate\<close> compare the old and the new object of an update, and
  let every other event through. \<^verbatim>\<open>And\<close> and \<^verbatim>\<open>Or\<close> combine event by event.
\<close>

fun NewPredicateFuncs :: "(Service \<Rightarrow> bool) \<Rightarrow> Predicate" where
  "NewPredicateFuncs filterFunc (CreateEvent obj) = filterFunc obj"
| "NewPredicateFuncs filterFunc (UpdateEvent objectOld objectNew) = filterFunc objectNew"
| "NewPredicateFuncs filterFunc (DeleteEvent obj) = filterFunc obj"
| "NewPredicateFuncs filterFunc (GenericEvent obj) = filterFunc obj"

definition LabelSelectorPredicate ::
  "('obj, 'c, 'sel) kube \<Rightarrow> LabelSelector \<Rightarrow> error + Predicate" where
  "LabelSelectorPredicate K s =
     (case LabelSelectorAsSelector K s of
        Inl err \<Rightarrow> Inl err
      | Inr selector \<Rightarrow> Inr (NewPredicateFuncs (\<lambda>obj. Matches K selector (GetLabels obj))))"

fun LabelChangedPredicate :: Predicate where
  "LabelChangedPredicate (UpdateEvent objectOld objectNew) =
     (GetLabels objectNew \<noteq> GetLabels objectOld)"
| "LabelChangedPredicate _ = True"

fun GenerationChangedPredicate :: Predicate where
  "GenerationChangedPredicate (UpdateEvent objectOld objectNew) =
     (GetGeneration objectNew \<noteq> GetGeneration objectOld)"
| "GenerationChangedPredicate _ = True"

definition And :: "Predicate list \<Rightarrow> Predicate" where
  "And predicates e = list_all (\<lambda>p. p e) predicates"

definition Or :: "Predicate list \<Rightarrow> Predicate" where
  "Or predicates e = list_ex (\<lambda>p. p e) predicates"

text \<open>The predicate \<^verbatim>\<open>withPredicate\<close> that \<^verbatim>\<open>SetupWithManager\<close> builds.\<close>

definition withPredicate ::
  "('obj, 'sel) manifests \<Rightarrow> ('obj, 'c, 'sel) kube \<Rightarrow> error + Predicate" where
  "withPredicate M K =
     (case LabelSelectorPredicate K
             \<lparr>MatchLabels = requiredStoreServiceLabels M, MatchExpressions = []\<rparr> of
        Inl err \<Rightarrow> Inl err
      | Inr servicePredicate \<Rightarrow>
          (let withLabelChangedPredicate = And [servicePredicate, LabelChangedPredicate];
               withGenerationChangePredicate =
                 And [servicePredicate, GenerationChangedPredicate, servicePredicate]
           in Inr (Or [withLabelChangedPredicate, withGenerationChangePredicate])))"

definition isQueueableStoreService :: "('obj, 'sel) manifests \<Rightarrow> Service \<Rightarrow> bool" where
  "isQueueableStoreService M obj =
     (case IsGrpcServiceWithLabels M obj (requiredStoreServiceLabels M) of (_, ok) \<Rightarrow> ok)"

text \<open>The body of the loop of \<^verbatim>\<open>enqueueForService\<close> for one listed ThanosQuery.\<close>

definition enqueueForQuery ::
  "('obj, 'sel) manifests \<Rightarrow> ('obj, 'c, 'sel) kube \<Rightarrow> Service \<Rightarrow> ThanosQuery \<Rightarrow>
   'c world \<times> Request list \<Rightarrow> 'c world \<times> Request list" where
  "enqueueForQuery M K obj query st =
     (case st of (w, requests) \<Rightarrow>
        (case BuildLabelSelectorFrom M (StoreLabelSelector (Spec query))
                (requiredStoreServiceLabels M) of
           Inl err \<Rightarrow>
             (logger (LogError err ''failed to build label selector from store label selector'') w,
              requests)
         | Inr selector \<Rightarrow>
             if Matches K selector (GetLabels obj) then
               (w, requests @
                  [\<lparr>NamespacedName =
                      \<lparr>nnName = GetName query, nnNamespace = GetNamespace query\<rparr>\<rparr>])
             else (w, requests)))"

fun enqueueLoop ::
  "('obj, 'sel) manifests \<Rightarrow> ('obj, 'c, 'sel) kube \<Rightarrow> Service \<Rightarrow> ThanosQuery list \<Rightarrow>
   'c world \<times> Request list \<Rightarrow> 'c world \<times> Request list" where
  "enqueueLoop M K obj [] st = st"
| "enqueueLoop M K obj (query # rest) st =
     enqueueLoop M K obj rest (enqueueForQuery M K obj query st)"

text \<open>The map function that \<^verbatim>\<open>enqueueForService\<close> wraps into an event handler.\<close>

definition enqueueForService ::
  "('obj, 'sel) manifests \<Rightarrow> ('obj, 'c, 'sel) kube \<Rightarrow> 'c world \<Rightarrow> Service \<Rightarrow>
   'c world \<times> Request list" where
  "enqueueForService M K w obj =
     (if \<not> isQueueableStoreService M obj then (w, [])
      else
        (case ListThanosQueries K (cluster w) (GetNamespace obj) of
           Inl err \<Rightarrow> (w, [])
         | Inr items \<Rightarrow>
             (case enqueueLoop M K obj items (w, []) of
                (w', requests) \<Rightarrow>
                  (w'\<lparr>ServiceWatchesReconciliationsTotal :=
                        ServiceWatchesReconciliationsTotal w' + int (length requests)\<rparr>,
                   requests))))"

text \<open>
  \<^verbatim>\<open>SetupWithManager\<close>. \<open>Complete\<close> stands for the controller builder: it is handed
  the predicate of the service watch and answers with the error of the registration, if any.
\<close>

definition ThanosQuery_SetupWithManager ::
  "('obj, 'sel) manifests \<Rightarrow> ('obj, 'c, 'sel) kube \<Rightarrow> (Predicate \<Rightarrow> error option) \<Rightarrow>
   'c world \<Rightarrow> 'c world \<times> error option" where
  "ThanosQuery_SetupWithManager M K Complete w =
     (case withPredicate M K of
        Inl err \<Rightarrow> (w, Some err)
      | Inr p \<Rightarrow>
          (case Complete p of
             Some err \<Rightarrow>
               (RecorderEvent zeroObjectMeta EventTypeWarning ''SetupFailed''
                  (Sprintf ''Failed to set up controller: %v'' [ArgError err]) w,
                Some err)
           | None \<Rightarrow> (w, None)))"

text \<open>
  The service watch that \<^verbatim>\<open>SetupWithManager\<close> registers: controller-runtime hands an
  event to the handler only if the predicate admits it, and enqueues what the handler
  returns.
\<close>

definition serviceWatch ::
  "('obj, 'sel) manifests \<Rightarrow> ('obj, 'c, 'sel) kube \<Rightarrow> Predicate \<Rightarrow> 'c world \<Rightarrow> WatchEvent \<Rightarrow>
   'c world \<times> Request list" where
  "serviceWatch M K p w e =
     (if p e then EnqueueRequestsFromMapFunc K (enqueueForService M K) w e else (w, []))"

section \<open>The ThanosStore controller\<close>

text \<open>A Go call either returns or panics.\<close>

datatype 'a go = Panics string | Returns 'a

text \<open>\<^verbatim>\<open>resource.MustParse\<close> panics where \<^verbatim>\<open>resource.ParseQuantity\<close> returns an error.\<close>

definition MustParse :: "('obj, 'c, 'sel) kube \<Rightarrow> string \<Rightarrow> Quantity go" where
  "MustParse K str =
     (case ParseQuantity K str of
        None \<Rightarrow> Panics ''cannot parse quantity''
      | Some q \<Rightarrow> Returns q)"

definition buildStore ::
  "('obj, 'sel) manifests \<Rightarrow> ('obj, 'c, 'sel) kube \<Rightarrow> ThanosStore \<Rightarrow> 'obj list go" where
  "buildStore M K store =
     (let opts = ApplyDefaults M
            \<lparr>Options.Name = GetName store,
             Options.Namespace = GetNamespace store,
             Options.Replicas = ShardReplicas (ThanosStoreSpec.ShardingStrategy (Spec store)),
             Options.Labels = MergeLabels M (GetLabels store) (CommonFields.Labels (Spec store)),
             Options.Image = CommonFields.Image (Spec store),
             Options.LogLevel = CommonFields.LogLevel (Spec store),
             Options.LogFormat = CommonFields.LogFormat (Spec store),
             Options.ResourceRequirements = None,
             Options.Additional =
               \<lparr>Args = [], Containers = [], Volumes = [], VolumeMounts = [], Ports = [],
                Env = [], ServicePorts = []\<rparr>\<rparr>;
          additional =
            \<lparr>Args = Args (CommonFields.Additional (Spec store)),
             Containers = Containers (CommonFields.Additional (Spec store)),
             Volumes = Volumes (CommonFields.Additional (Spec store)),
             VolumeMounts = VolumeMounts (CommonFields.Additional (Spec store)),
             Ports = Ports (CommonFields.Additional (Spec store)),
             Env = Env (CommonFields.Additional (Spec store)),
             ServicePorts = ServicePorts (CommonFields.Additional (Spec store))\<rparr>
      in case MustParse K (ThanosStoreSpec.StorageSize (Spec store)) of
           Panics msg \<Rightarrow> Panics msg
         | Returns storageSize \<Rightarrow>
             Returns (BuildStores M
               \<lparr>StoreOptions.Options = opts,
                ObjStoreSecret = ToSecretKeySelector M (ThanosStoreSpec.ObjectStorageConfig (Spec store)),
                StoreOptions.IndexCacheConfig = ThanosStoreSpec.IndexCacheConfig (Spec store),
                StoreOptions.CachingBucketConfig = ThanosStoreSpec.CachingBucketConfig (Spec store),
                Min = OptionalToString M (MinTime (Spec store)),
                Max = OptionalToString M (MaxTime (Spec store)),
                StoreOptions.IgnoreDeletionMarksDelay =
                  ThanosStoreSpec.IgnoreDeletionMarksDelay (Spec store),
                StoreOptions.Additional = additional,
                StoreOptions.StorageSize = storageSize,
                StoreOptions.Shards = ShardingStrategy.Shards (ThanosStoreSpec.ShardingStrategy (Spec store))\<rparr>))"

definition ThanosStore_syncObject ::
  "('obj, 'sel) manifests \<Rightarrow> ('obj, 'c, 'sel) kube \<Rightarrow> ThanosStore \<Rightarrow> 'obj \<Rightarrow>
   'c world \<times> 32 word \<Rightarrow> 'c world \<times> 32 word" where
  "ThanosStore_syncObject M K store obj st =
     (case st of (w, errCount) \<Rightarrow>
        (case (if IsNamespacedResource M obj
               then SetControllerReference K (ObjectMeta.truncate store)
                      (SetNamespace K obj (ObjectMeta.Namespace store))
               else Inr obj) of
           Inl err \<Rightarrow>
             (logger (LogError err ''failed to set controller owner reference to resource'') w,
              errCount + 1)
         | Inr obj' \<Rightarrow>
             (case CreateOrUpdate K (cluster w) obj' of
                Inl err \<Rightarrow>
                  (RecorderEvent store EventTypeWarning ''SyncFailed''
                     (Sprintf ''Failed to sync resource %s: %v''
                        [ArgString (ObjectGetName K obj'), ArgError err])
                     (logger (LogError err ''failed to create or update resource'') w),
                   errCount + 1)
              | Inr (op, c') \<Rightarrow>
                  (logger (LogV1Info ''resource configured'') (w\<lparr>cluster := c'\<rparr>), errCount))))"

fun ThanosStore_syncObjects ::
  "('obj, 'sel) manifests \<Rightarrow> ('obj, 'c, 'sel) kube \<Rightarrow> ThanosStore \<Rightarrow> 'obj list \<Rightarrow>
   'c world \<times> 32 word \<Rightarrow> 'c world \<times> 32 word" where
  "ThanosStore_syncObjects M K store [] st = st"
| "ThanosStore_syncObjects M K store (obj # objs) st =
     ThanosStore_syncObjects M K store objs (ThanosStore_syncObject M K store obj st)"

definition ThanosStore_syncResult ::
  "('obj, 'sel) manifests \<Rightarrow> 'c world \<times> 32 word \<Rightarrow> 'c world \<times> error option" where
  "ThanosStore_syncResult M st =
     (case st of (w, errCount) \<Rightarrow>
        if 0 <s errCount then
          (w\<lparr>ClientErrorsTotal := AddCounter (ClientErrorsTotal w) (StoreName M) (sint errCount)\<rparr>,
           Some (Errorf ''failed to create or update %d resources for the store''
             [ArgInt (sint errCount)]))
        else (w, None))"

text \<open>
  The store controller's \<^verbatim>\<open>syncResources\<close> and \<^verbatim>\<open>Reconcile\<close> return the world as it
  is when the call ends, and whether the call returned or panicked.
\<close>

definition ThanosStore_syncResources ::
  "('obj, 'sel) manifests \<Rightarrow> ('obj, 'c, 'sel) kube \<Rightarrow> 'c world \<Rightarrow> ThanosStore \<Rightarrow>
   'c world \<times> error option go" where
  "ThanosStore_syncResources M K w store =
     (case buildStore M K store of
        Panics msg \<Rightarrow> (w, Panics msg)
      | Returns desiredObjs \<Rightarrow>
          (let objs = [] @ desiredObjs in
           case ThanosStore_syncResult M (ThanosStore_syncObjects M K store objs (w, 0)) of
             (w', r) \<Rightarrow> (w', Returns r)))"

definition ThanosStore_Reconcile ::
  "('obj, 'sel) manifests \<Rightarrow> ('obj, 'c, 'sel) kube \<Rightarrow> 'c world \<Rightarrow> Request \<Rightarrow>
   'c world \<times> (Result \<times> error option) go" where
  "ThanosStore_Reconcile M K w req =
     (let w0 = w\<lparr>ReconciliationsTotal := AddCounter (ReconciliationsTotal w) (StoreName M) 1\<rparr> in
      case GetThanosStore K (cluster w0) (NamespacedName req) of
        Inl err \<Rightarrow>
          (let w1 = w0\<lparr>ClientErrorsTotal := AddCounter (ClientErrorsTotal w0) (StoreName M) 1\<rparr> in
           if IsNotFound err then
             (logger (LogInfo
                ''thanos store resource not found. ignoring since object may be deleted'') w1,
              Returns (emptyResult, None))
           else
             (let w2 = logger (LogError err ''failed to get ThanosStore'') w1;
                  w3 = w2\<lparr>ReconciliationsFailedTotal :=
                          AddCounter (ReconciliationsFailedTotal w2) (StoreName M) 1\<rparr>;
                  w4 = RecorderEvent zeroObjectMeta EventTypeWarning ''GetFailed''
                         (Sprintf ''Failed to get ThanosStore resource'' []) w3
              in (w4, Returns (emptyResult, Some err))))
      | Inr store \<Rightarrow>
          if (case Paused (Spec store) of None \<Rightarrow> False | Some paused \<Rightarrow> paused) then
            (RecorderEvent store EventTypeNormal ''Paused''
               (Sprintf ''Reconciliation is paused for ThanosStore resource'' [])
               (logger (LogInfo ''reconciliation is paused for ThanosStore'') w0),
             Returns (emptyResult, None))
          else
            (case ThanosStore_syncResources M K w0 store of
               (w1, Panics msg) \<Rightarrow> (w1, Panics msg)
             | (w1, Returns (Some err)) \<Rightarrow>
                 (RecorderEvent store EventTypeWarning ''SyncFailed''
                    (Sprintf ''Failed to sync resources: %v'' [ArgError err])
                    (w1\<lparr>ReconciliationsFailedTotal :=
                          AddCounter (ReconciliationsFailedTotal w1) (StoreName M) 1\<rparr>),
                  Returns (emptyResult, Some err))
             | (w1, Returns None) \<Rightarrow> (w1, Returns (emptyResult, None))))"

section \<open>What the properties speak of\<close>

text \<open>
  One pass of the sync loop, seen from outside. \<open>syncAttempt\<close> is what happens to one
  desired object on cluster state \<open>c\<close>: \<open>None\<close> if establishing the owner reference or the
  create/update fails, and otherwise the cluster state that the create/update leaves.
  \<open>syncFailures\<close> counts the objects of a pass that fail, each tried on the cluster state
  its predecessors left, and \<open>syncApplied\<close> is the cluster state in which the mutations of
  the objects that did not fail, and only those, are applied in order.
\<close>

definition syncAttempt ::
  "('obj, 'sel) manifests \<Rightarrow> ('obj, 'c, 'sel) kube \<Rightarrow> ObjectMeta \<Rightarrow> 'obj \<Rightarrow> 'c \<Rightarrow> 'c option" where
  "syncAttempt M K owner obj c =
     (case (if IsNamespacedResource M obj
            then SetControllerReference K owner (SetNamespace K obj (ObjectMeta.Namespace owner))
            else Inr obj) of
        Inl err \<Rightarrow> None
      | Inr obj' \<Rightarrow>
          (case CreateOrUpdate K c obj' of
             Inl err \<Rightarrow> None
           | Inr (op, c') \<Rightarrow> Some c'))"

fun syncFailures ::
  "('obj, 'sel) manifests \<Rightarrow> ('obj, 'c, 'sel) kube \<Rightarrow> ObjectMeta \<Rightarrow> 'obj list \<Rightarrow> 'c \<Rightarrow> nat" where
  "syncFailures M K owner [] c = 0"
| "syncFailures M K owner (obj # objs) c =
     (case syncAttempt M K owner obj c of
        None \<Rightarrow> Suc (syncFailures M K owner objs c)
      | Some c' \<Rightarrow> syncFailures M K owner objs c')"

fun syncSuccesses ::
  "('obj, 'sel) manifests \<Rightarrow> ('obj, 'c, 'sel) kube \<Rightarrow> ObjectMeta \<Rightarrow> 'obj list \<Rightarrow> 'c \<Rightarrow> nat" where
  "syncSuccesses M K owner [] c = 0"
| "syncSuccesses M K owner (obj # objs) c =
     (case syncAttempt M K owner obj c of
        None \<Rightarrow> syncSuccesses M K owner objs c
      | Some c' \<Rightarrow> Suc (syncSuccesses M K owner objs c'))"

fun syncApplied ::
  "('obj, 'sel) manifests \<Rightarrow> ('obj, 'c, 'sel) kube \<Rightarrow> ObjectMeta \<Rightarrow> 'obj list \<Rightarrow> 'c \<Rightarrow> 'c" where
  "syncApplied M K owner [] c = c"
| "syncApplied M K owner (obj # objs) c =
     (case syncAttempt M K owner obj c of
        None \<Rightarrow> syncApplied M K owner objs c
      | Some c' \<Rightarrow> syncApplied M K owner objs c')"

text \<open>The desired objects of a ThanosQuery once the querier's objects are built.\<close>

definition queryObjects ::
  "('obj, 'sel) manifests \<Rightarrow> ThanosQuery \<Rightarrow> 'obj list \<Rightarrow> 'obj list" where
  "queryObjects M query querierObjs =
     (case QueryFrontend (Spec query) of
        None \<Rightarrow> querierObjs
      | Some frontend \<Rightarrow> querierObjs @ buildQueryFrontend M query frontend)"

text \<open>The log line that each object synced without failure leaves.\<close>

definition configuredLines :: "'c world \<Rightarrow> nat" where
  "configuredLines w = length (filter (\<lambda>l. l = LogV1Info ''resource configured'') (logs w))"

text \<open>The events of a given reason.\<close>

definition eventsOf :: "string \<Rightarrow> 'c world \<Rightarrow> Event list" where
  "eventsOf reason w = filter (\<lambda>e. Reason e = reason) (events w)"

text \<open>The object a watch event is about: the new one for an update.\<close>

fun eventObject :: "WatchEvent \<Rightarrow> Service" where
  "eventObject (CreateEvent obj) = obj"
| "eventObject (UpdateEvent objectOld objectNew) = objectNew"
| "eventObject (DeleteEvent obj) = obj"
| "eventObject (GenericEvent obj) = obj"

text \<open>
  Whether the effective selector of a ThanosQuery, built from its override and the base
  labels, exists and matches a service; and the request for a ThanosQuery.
\<close>

definition selectsService ::
  "('obj, 'sel) manifests \<Rightarrow> ('obj, 'c, 'sel) kube \<Rightarrow> Service \<Rightarrow> ThanosQuery \<Rightarrow> bool" where
  "selectsService M K obj query =
     (case BuildLabelSelectorFrom M (StoreLabelSelector (Spec query))
             (requiredStoreServiceLabels M) of
        Inl err \<Rightarrow> False
      | Inr selector \<Rightarrow> Matches K selector (GetLabels obj))"

definition requestFor :: "ThanosQuery \<Rightarrow> Request" where
  "requestFor query =
     \<lparr>NamespacedName = \<lparr>nnName = GetName query, nnNamespace = GetNamespace query\<rparr>\<rparr>"

section \<open>A concrete cluster to run the controllers on\<close>

text \<open>
  Selectors are label maps to be contained in the labels of a service; objects are known by
  their names, and the cluster state is the list of the objects written so far. The create
  or update of the object \<open>''deployment''\<close> fails. The handler made from a map function
  runs it on the object of the event, on the old and then the new object for an update, and
  drops the requests it has already.
\<close>

definition noAdditional :: Additional where
  "noAdditional = \<lparr>Args = [], Containers = [], Volumes = [], VolumeMounts = [], Ports = [],
     Env = [], ServicePorts = []\<rparr>"

definition exampleManifests :: "(string, labelMap) manifests" where
  "exampleManifests =
     \<lparr>DefaultStoreAPILabel = ''operator.thanos.io/store-api'',
      DefaultStoreAPIValue = ''true'',
      PartOfLabel = ''app.kubernetes.io/part-of'',
      DefaultPartOfLabel = ''thanos'',
      IsGrpcServiceWithLabels =
        (\<lambda>svc required. case map_of (SvcPorts svc) ''grpc'' of
                            None \<Rightarrow> (0, False)
                          | Some port \<Rightarrow> (port, True)),
      BuildLabelSelectorFrom =
        (\<lambda>s required. case s of
                        None \<Rightarrow> Inr required
                      | Some ls \<Rightarrow>
                          if MatchExpressions ls = [] then Inr (required ++ MatchLabels ls)
                          else Inl (ApiError ''invalid label selector'')),
      IsNamespacedResource = (\<lambda>obj. obj \<noteq> ''clusterrole''),
      MergeLabels = (\<lambda>a b. a ++ b),
      OptionalToString = (\<lambda>s. case s of None \<Rightarrow> [] | Some x \<Rightarrow> x),
      ApplyDefaults = (\<lambda>opts. opts),
      ToSecretKeySelector =
        (\<lambda>c. \<lparr>LocalObjectReference = SecretName c, SelectorKey = SecretKey c, Optional = None\<rparr>),
      QueryName = ''thanos-query'',
      RegularLabel = ''operator.thanos.io/endpoint'',
      StrictLabel = ''operator.thanos.io/endpoint-strict'',
      GroupStrictLabel = ''operator.thanos.io/endpoint-group-strict'',
      GroupLabel = ''operator.thanos.io/endpoint-group'',
      HTTPPort = 9090,
      BuildQuery = (\<lambda>opts. [''serviceaccount'', ''deployment'', ''service'']),
      BuildQueryFrontend = (\<lambda>opts. [''frontend'']),
      StoreName = ''thanos-store'',
      BuildStores = (\<lambda>opts. [''statefulset'', ''service''])\<rparr>"

definition baseLabels :: labelMap where
  "baseLabels = [''operator.thanos.io/store-api'' \<mapsto> ''true'',
                 ''app.kubernetes.io/part-of'' \<mapsto> ''thanos'']"

definition svcNoGrpc :: Service where
  "svcNoGrpc = \<lparr>ObjectMeta.Name = ''store-a'', ObjectMeta.Namespace = ''ns-a'',
     ObjectMeta.Labels = baseLabels, Generation = 1, SvcPorts = [(''http'', 10902)]\<rparr>"

definition svcStrict :: Service where
  "svcStrict = \<lparr>ObjectMeta.Name = ''store-b'', ObjectMeta.Namespace = ''ns-a'',
     ObjectMeta.Labels = baseLabels(''operator.thanos.io/endpoint-strict'' \<mapsto> ''true'',
                                    ''operator.thanos.io/endpoint-group'' \<mapsto> ''true''),
     Generation = 1, SvcPorts = [(''grpc'', 10901)]\<rparr>"

definition querySpec :: "bool option \<Rightarrow> LabelSelector option \<Rightarrow> ThanosQuerySpec" where
  "querySpec paused selector =
     \<lparr>CommonFields.Labels = Map.empty, CommonFields.Image = None,
      CommonFields.LogLevel = None, CommonFields.LogFormat = None,
      CommonFields.ResourceRequirements = None, CommonFields.Additional = noAdditional,
      Paused = paused, ThanosQuerySpec.Replicas = 1, QuerierReplicaLabels = [],
      StoreLabelSelector = selector, QueryFrontend = None\<rparr>"

definition exampleQuery :: "string \<Rightarrow> bool option \<Rightarrow> LabelSelector option \<Rightarrow> ThanosQuery" where
  "exampleQuery name paused selector =
     \<lparr>ObjectMeta.Name = name, ObjectMeta.Namespace = ''ns-a'', ObjectMeta.Labels = Map.empty,
      Generation = 1, Spec = querySpec paused selector\<rparr>"

definition exampleStore :: "string \<Rightarrow> bool option \<Rightarrow> string \<Rightarrow> ThanosStore" where
  "exampleStore name paused storageSize =
     \<lparr>ObjectMeta.Name = name, ObjectMeta.Namespace = ''ns-a'', ObjectMeta.Labels = Map.empty,
      Generation = 1,
      Spec =
        \<lparr>CommonFields.Labels = Map.empty, CommonFields.Image = None,
         CommonFields.LogLevel = None, CommonFields.LogFormat = None,
         CommonFields.ResourceRequirements = None, CommonFields.Additional = noAdditional,
         Paused = paused,
         ThanosStoreSpec.ShardingStrategy = \<lparr>ShardingStrategy.Shards = 1, ShardReplicas = 1\<rparr>,
         ThanosStoreSpec.ObjectStorageConfig = \<lparr>SecretName = ''objstore'', SecretKey = ''thanos.yaml''\<rparr>,
         ThanosStoreSpec.IndexCacheConfig = None, ThanosStoreSpec.CachingBucketConfig = None,
         MinTime = None, MaxTime = None,
         ThanosStoreSpec.IgnoreDeletionMarksDelay = ''24h'',
         ThanosStoreSpec.StorageSize = storageSize\<rparr>\<rparr>"

definition goldSelector :: LabelSelector where
  "goldSelector = \<lparr>MatchLabels = [''tier'' \<mapsto> ''gold''], MatchExpressions = []\<rparr>"

definition brokenSelector :: LabelSelector where
  "brokenSelector = \<lparr>MatchLabels = Map.empty,
     MatchExpressions = [\<lparr>Key = ''tier'', Operator = ''Between'', Values = []\<rparr>]\<rparr>"

definition exampleKube :: "(string, string list, labelMap) kube" where
  "exampleKube =
     \<lparr>GetThanosQuery =
        (\<lambda>c key. if nnName key = ''q1'' then Inr (exampleQuery ''q1'' None None)
                  else if nnName key = ''q-paused'' then Inr (exampleQuery ''q-paused'' (Some True) None)
                  else if nnName key = ''q-down'' then Inl (ApiError ''connection refused'')
                  else Inl (StatusNotFound ''thanosqueries not found'')),
      GetThanosStore =
        (\<lambda>c key. if nnName key = ''s1'' then Inr (exampleStore ''s1'' None ''1Gi'')
                  else if nnName key = ''s-paused'' then Inr (exampleStore ''s-paused'' (Some True) ''1Gi'')
                  else if nnName key = ''s-bad'' then Inr (exampleStore ''s-bad'' None ''lots'')
                  else if nnName key = ''s-down'' then Inl (ApiError ''connection refused'')
                  else Inl (StatusNotFound ''thanosstores not found'')),
      ListServices = (\<lambda>c selector ns. Inr [svcNoGrpc, svcStrict]),
      ListThanosQueries =
        (\<lambda>c ns. if ns = ''ns-a''
                 then Inr [exampleQuery ''q1'' None None,
                           exampleQuery ''q-broken'' None (Some brokenSelector),
                           exampleQuery ''q-gold'' None (Some goldSelector),
                           exampleQuery ''q-paused'' (Some True) None]
                 else Inl (ApiError ''connection refused'')),
      SetNamespace = (\<lambda>obj ns. obj),
      SetControllerReference = (\<lambda>owner obj. Inr obj),
      CreateOrUpdate =
        (\<lambda>c obj. if obj = ''deployment'' then Inl (ApiError ''conflict'')
                  else Inr (OperationResultCreated, c @ [obj])),
      Matches = (\<lambda>selector ls. selector \<subseteq>\<^sub>m ls),
      LabelSelectorAsSelector = (\<lambda>ls. Inr (MatchLabels ls)),
      ParseQuantity = (\<lambda>str. if str = ''1Gi'' then Some (Quantity ''1Gi'') else None),
      ObjectGetName = (\<lambda>obj. obj),
      EnqueueRequestsFromMapFunc =
        (\<lambda>mapFunc w e.
           case e of
             UpdateEvent objectOld objectNew \<Rightarrow>
               (case mapFunc w objectOld of
                  (w1, fromOld) \<Rightarrow>
                    (case mapFunc w1 objectNew of
                       (w2, fromNew) \<Rightarrow> (w2, remdups (fromOld @ fromNew))))
           | _ \<Rightarrow>
               (case mapFunc w (eventObject e) of
                  (w1, requests) \<Rightarrow> (w1, remdups requests)))\<rparr>"

definition exampleWorld :: "string list world" where
  "exampleWorld =
     \<lparr>cluster = [],
      ReconciliationsTotal = (\<lambda>_. 0),
      ReconciliationsFailedTotal = (\<lambda>_. 0),
      ClientErrorsTotal = (\<lambda>_. 0),
      EndpointsConfigured = (\<lambda>_. 0),
      ServiceWatchesReconciliationsTotal = 0,
      events = [],
      logs = []\<rparr>"

definition requestOf :: "string \<Rightarrow> Request" where
  "requestOf name = \<lparr>NamespacedName = \<lparr>nnName = name, nnNamespace = ''ns-a''\<rparr>\<rparr>"

section \<open>Properties\<close>

subsection \<open>Endpoint classification\<close>

text \<open>
  C5. \<^verbatim>\<open>getServiceTypeFromLabel\<close> gives every label set one of the four endpoint types,
  by the fixed priority Strict, GroupStrict, Group, Regular: the first marker label present
  decides, Regular is the answer when no marker label is present, and a service that
  carries both the Strict and the Group marker is Strict.
\<close>

theorem getServiceTypeFromLabel_priority:
  "getServiceTypeFromLabel M objMeta \<in>
     {StrictLabel M, GroupStrictLabel M, GroupLabel M, RegularLabel M}
   \<and> (HasLabel objMeta (StrictLabel M) \<longrightarrow> getServiceTypeFromLabel M objMeta = StrictLabel M)
   \<and> (\<not> HasLabel objMeta (StrictLabel M) \<and> HasLabel objMeta (GroupStrictLabel M)
        \<longrightarrow> getServiceTypeFromLabel M objMeta = GroupStrictLabel M)
   \<and> (\<not> HasLabel objMeta (StrictLabel M) \<and> \<not> HasLabel objMeta (GroupStrictLabel M)
        \<and> HasLabel objMeta (GroupLabel M)
        \<longrightarrow> getServiceTypeFromLabel M objMeta = GroupLabel M)
   \<and> (\<not> HasLabel objMeta (StrictLabel M) \<and> \<not> HasLabel objMeta (GroupStrictLabel M)
        \<and> \<not> HasLabel objMeta (GroupLabel M)
        \<longrightarrow> getServiceTypeFromLabel M objMeta = RegularLabel M)
   \<and> (HasLabel objMeta (StrictLabel M) \<and> HasLabel objMeta (GroupLabel M)
        \<longrightarrow> getServiceTypeFromLabel M objMeta = StrictLabel M)"
  by (simp add: getServiceTypeFromLabel_def)

theorem getServiceTypeFromLabel_priority_witness:
  "HasLabel svcStrict (StrictLabel exampleManifests)
   \<and> HasLabel svcStrict (GroupLabel exampleManifests)
   \<and> getServiceTypeFromLabel exampleManifests svcStrict = ''operator.thanos.io/endpoint-strict''"
  using getServiceTypeFromLabel_priority [of exampleManifests svcStrict]
  by (simp add: HasLabel_def svcStrict_def exampleManifests_def)

subsection \<open>Endpoint discovery\<close>

text \<open>
  The slice of endpoints is made with one entry for each listed service, and the loop only
  ever writes into it: whatever the services are, the result is as long as the listing.
\<close>

lemma endpointsLoop_length:
  "endpointsLoop M query i svcs (w, endpoints) = (w', endpoints') \<Longrightarrow>
     length endpoints' = length endpoints"
  by (induction svcs arbitrary: i w endpoints) (auto split: prod.splits if_splits simp: Let_def)

text \<open>
  C1. The endpoint list is to hold an entry only for the services that advertise a gRPC
  port, with no placeholder for a service that does not. On a listing of two services, the
  first without a gRPC port, \<^verbatim>\<open>getStoreAPIServiceEndpoints\<close> returns two entries: the
  first is the zero-valued endpoint, left where the skipped service stood. Only the second
  service is counted in the endpoint counter.
\<close>

theorem getStoreAPIServiceEndpoints_placeholder:
  "\<not> snd (IsGrpcServiceWithLabels exampleManifests svcNoGrpc
            (requiredStoreServiceLabels exampleManifests))
   \<and> ListServices exampleKube (cluster exampleWorld) baseLabels ''ns-a'' =
       Inr [svcNoGrpc, svcStrict]
   \<and> snd (getStoreAPIServiceEndpoints exampleManifests exampleKube exampleWorld
             (exampleQuery ''q1'' None None)) =
       Inr [zeroEndpoint,
            \<lparr>ServiceName = ''store-b'', Port = 10901, Endpoint.Namespace = ''ns-a'',
             Type = ''operator.thanos.io/endpoint-strict''\<rparr>]
   \<and> EndpointsConfigured
         (fst (getStoreAPIServiceEndpoints exampleManifests exampleKube exampleWorld
                 (exampleQuery ''q1'' None None))) =
       (\<lambda>_. 0)((''operator.thanos.io/endpoint-strict'', ''q1'', ''ns-a'') := 1)"
  by (simp add: getStoreAPIServiceEndpoints_def exampleManifests_def exampleKube_def
        exampleQuery_def querySpec_def exampleWorld_def svcNoGrpc_def svcStrict_def
        getServiceTypeFromLabel_def HasLabel_def requiredStoreServiceLabels_def Let_def
        logger_def AddCounter_def)

subsection \<open>The sync loop\<close>

text \<open>
  One step of either loop does to the cluster and to \<open>errCount\<close> what \<open>syncAttempt\<close> says,
  never touches the client-error counter, and logs a configured line exactly when the
  object went through. The loops follow by induction on the list of objects.
\<close>

lemma truncate_Namespace [simp]: "ObjectMeta.Namespace (ObjectMeta.truncate r) = ObjectMeta.Namespace r"
  by (simp add: ObjectMeta.truncate_def)

lemma configuredLines_logger:
  "configuredLines (logger l w) = configuredLines w + (if l = LogV1Info ''resource configured'' then 1 else 0)"
  by (simp add: configuredLines_def logger_def)

lemma configuredLines_cluster [simp]: "configuredLines (w\<lparr>cluster := c\<rparr>) = configuredLines w"
  by (simp add: configuredLines_def)

lemma syncObject_query:
  assumes "ThanosQuery_syncObject M K query obj (w, e) = (w', e')"
  shows "ClientErrorsTotal w' = ClientErrorsTotal w \<and>
         (case syncAttempt M K (ObjectMeta.truncate query) obj (cluster w) of
            None \<Rightarrow> cluster w' = cluster w \<and> e' = e + 1 \<and> configuredLines w' = configuredLines w
          | Some c' \<Rightarrow> cluster w' = c' \<and> e' = e \<and> configuredLines w' = Suc (configuredLines w))"
  using assms
  by (auto simp: ThanosQuery_syncObject_def syncAttempt_def logger_def configuredLines_def
           split: sum.splits prod.splits if_splits)

lemma syncObjects_query:
  "ThanosQuery_syncObjects M K query objs (w, e) = (w', e') \<Longrightarrow>
     ClientErrorsTotal w' = ClientErrorsTotal w \<and>
     cluster w' = syncApplied M K (ObjectMeta.truncate query) objs (cluster w) \<and>
     e' = e + of_nat (syncFailures M K (ObjectMeta.truncate query) objs (cluster w)) \<and>
     configuredLines w' =
       configuredLines w + syncSuccesses M K (ObjectMeta.truncate query) objs (cluster w)"
proof (induction objs arbitrary: w e)
  case Nil
  then show ?case by simp
next
  case (Cons obj objs)
  obtain w1 e1 where step: "ThanosQuery_syncObject M K query obj (w, e) = (w1, e1)"
    by (cases "ThanosQuery_syncObject M K query obj (w, e)")
  with Cons.prems have rest: "ThanosQuery_syncObjects M K query objs (w1, e1) = (w', e')"
    by simp
  note ih = Cons.IH [OF rest]
  note one = syncObject_query [OF step]
  show ?case
  proof (cases "syncAttempt M K (ObjectMeta.truncate query) obj (cluster w)")
    case None
    with one ih show ?thesis by simp
  next
    case (Some c')
    with one ih show ?thesis by simp
  qed
qed

lemma syncFailures_successes:
  "syncFailures M K owner objs c + syncSuccesses M K owner objs c = length objs"
  by (induction objs arbitrary: c) (auto split: option.splits)

lemma sint_of_nat_int32:
  assumes "m < 2 ^ 31"
  shows "sint (of_nat m :: 32 word) = int m"
  using assms
  by (simp add: signed_of_nat signed_take_bit_int_eq_self)

lemma errCount_positive:
  assumes "m < 2 ^ 31"
  shows "(0 <s (of_nat m :: 32 word)) = (0 < m)"
  using assms by (simp add: word_sless_alt sint_of_nat_int32)


lemma syncObject_store:
  assumes "ThanosStore_syncObject M K store obj (w, e) = (w', e')"
  shows "ClientErrorsTotal w' = ClientErrorsTotal w \<and>
         (case syncAttempt M K (ObjectMeta.truncate store) obj (cluster w) of
            None \<Rightarrow> cluster w' = cluster w \<and> e' = e + 1 \<and> configuredLines w' = configuredLines w
          | Some c' \<Rightarrow> cluster w' = c' \<and> e' = e \<and> configuredLines w' = Suc (configuredLines w))"
  using assms
  by (auto simp: ThanosStore_syncObject_def syncAttempt_def logger_def configuredLines_def
                 RecorderEvent_def
           split: sum.splits prod.splits if_splits)

lemma syncObjects_store:
  "ThanosStore_syncObjects M K store objs (w, e) = (w', e') \<Longrightarrow>
     ClientErrorsTotal w' = ClientErrorsTotal w \<and>
     cluster w' = syncApplied M K (ObjectMeta.truncate store) objs (cluster w) \<and>
     e' = e + of_nat (syncFailures M K (ObjectMeta.truncate store) objs (cluster w)) \<and>
     configuredLines w' =
       configuredLines w + syncSuccesses M K (ObjectMeta.truncate store) objs (cluster w)"
proof (induction objs arbitrary: w e)
  case Nil
  then show ?case by simp
next
  case (Cons obj objs)
  obtain w1 e1 where step: "ThanosStore_syncObject M K store obj (w, e) = (w1, e1)"
    by (cases "ThanosStore_syncObject M K store obj (w, e)")
  with Cons.prems have rest: "ThanosStore_syncObjects M K store objs (w1, e1) = (w', e')"
    by simp
  note ih = Cons.IH [OF rest]
  note one = syncObject_store [OF step]
  show ?case
  proof (cases "syncAttempt M K (ObjectMeta.truncate store) obj (cluster w)")
    case None
    with one ih show ?thesis by simp
  next
    case (Some c')
    with one ih show ?thesis by simp
  qed
qed

lemma endpointsLoop_frame:
  "endpointsLoop M query i svcs (w, endpoints) = (w', endpoints') \<Longrightarrow>
     cluster w' = cluster w \<and> ClientErrorsTotal w' = ClientErrorsTotal w \<and>
     events w' = events w \<and> configuredLines w' = configuredLines w"
  by (induction svcs arbitrary: i w endpoints)
     (auto split: prod.splits if_splits simp: Let_def logger_def configuredLines_def)

lemma eventsOf_RecorderEvent:
  "eventsOf reason (RecorderEvent obj t r msg w) =
     eventsOf reason w @
       (if r = reason
        then [\<lparr>InvolvedObject = ObjectMeta.truncate obj, EventType = t, Reason = r, Message = msg\<rparr>]
        else [])"
  by (simp add: eventsOf_def RecorderEvent_def)

lemma getStoreAPIServiceEndpoints_frame:
  assumes "getStoreAPIServiceEndpoints M K w query = (w', r)"
  shows "cluster w' = cluster w \<and> ClientErrorsTotal w' = ClientErrorsTotal w \<and>
         configuredLines w' = configuredLines w \<and>
         eventsOf ''Paused'' w' = eventsOf ''Paused'' w"
proof -
  have loop: "\<And>items w2 eps. endpointsLoop M query 0 items (w, replicate (length items) zeroEndpoint) = (w2, eps) \<Longrightarrow>
     cluster w2 = cluster w \<and> ClientErrorsTotal w2 = ClientErrorsTotal w \<and>
     configuredLines w2 = configuredLines w \<and> eventsOf ''Paused'' w2 = eventsOf ''Paused'' w"
    using endpointsLoop_frame by (fastforce simp: eventsOf_def)
  show ?thesis
    using assms loop
    by (auto simp: getStoreAPIServiceEndpoints_def eventsOf_RecorderEvent
             split: sum.splits if_splits prod.splits)
       (auto simp: RecorderEvent_def configuredLines_def)
qed

lemma buildQuerier_frame:
  assumes "buildQuerier M K w query = (w', r)"
  shows "cluster w' = cluster w \<and> ClientErrorsTotal w' = ClientErrorsTotal w \<and>
         configuredLines w' = configuredLines w \<and>
         eventsOf ''Paused'' w' = eventsOf ''Paused'' w"
proof -
  obtain w1 r1 where g: "getStoreAPIServiceEndpoints M K w query = (w1, r1)"
    by (cases "getStoreAPIServiceEndpoints M K w query")
  with assms have "w' = w1"
    by (auto simp: buildQuerier_def Let_def split: sum.splits)
  with getStoreAPIServiceEndpoints_frame [OF g] show ?thesis by simp
qed

lemma AddCounter_zero [simp]: "AddCounter vec k 0 = vec"
  by (simp add: AddCounter_def)

text \<open>
  \<open>errCount\<close> is an \<^verbatim>\<open>int32\<close>: as long as fewer than \<open>2 ^ 31\<close> objects fail, it holds
  their number, and the test \<^verbatim>\<open>errCount > 0\<close> and the conversion to \<^verbatim>\<open>float64\<close> see that
  number.
\<close>

lemma syncResult_query:
  assumes "m < 2 ^ 31"
  shows "ThanosQuery_syncResult M (w, of_nat m) =
     (w\<lparr>ClientErrorsTotal := AddCounter (ClientErrorsTotal w) (QueryName M) (int m)\<rparr>,
      if m = 0 then None
      else Some (Errorf ''failed to create or update %d resources for the querier and query frontend''
                   [ArgInt (int m)]))"
  using assms
  by (simp add: ThanosQuery_syncResult_def errCount_positive sint_of_nat_int32)

lemma syncResult_store:
  assumes "m < 2 ^ 31"
  shows "ThanosStore_syncResult M (w, of_nat m) =
     (w\<lparr>ClientErrorsTotal := AddCounter (ClientErrorsTotal w) (StoreName M) (int m)\<rparr>,
      if m = 0 then None
      else Some (Errorf ''failed to create or update %d resources for the store'' [ArgInt (int m)]))"
  using assms
  by (simp add: ThanosStore_syncResult_def errCount_positive sint_of_nat_int32)

lemma query_syncResources_pass:
  assumes build: "buildQuerier M K w query = (w1, Inr querierObjs)"
    and objs: "objs = queryObjects M query querierObjs"
    and owner: "owner = ObjectMeta.truncate query"
    and m: "m = syncFailures M K owner objs (cluster w)"
    and bound: "m < 2 ^ 31"
    and run: "ThanosQuery_syncResources M K w query = (w', r)"
  shows "r = (if m = 0 then None
              else Some (Errorf
                ''failed to create or update %d resources for the querier and query frontend''
                [ArgInt (int m)]))"
    and "ClientErrorsTotal w' = AddCounter (ClientErrorsTotal w) (QueryName M) (int m)"
    and "cluster w' = syncApplied M K owner objs (cluster w)"
    and "configuredLines w' = configuredLines w + (length objs - m)"
proof -
  define w2 where "w2 = (case QueryFrontend (Spec query) of None \<Rightarrow> w1
      | Some frontend \<Rightarrow> RecorderEvent query EventTypeNormal ''BuildingQueryFrontend''
            (Sprintf ''Building Query Frontend resources'' []) w1)"
  have fr1: "cluster w1 = cluster w" "ClientErrorsTotal w1 = ClientErrorsTotal w"
    "configuredLines w1 = configuredLines w"
    using buildQuerier_frame [OF build] by simp_all
  have fr2: "cluster w2 = cluster w" "ClientErrorsTotal w2 = ClientErrorsTotal w"
    "configuredLines w2 = configuredLines w"
    using fr1 by (auto simp: w2_def RecorderEvent_def configuredLines_def split: option.splits)
  obtain w3 e3 where loop: "ThanosQuery_syncObjects M K query objs (w2, 0) = (w3, e3)"
    by (cases "ThanosQuery_syncObjects M K query objs (w2, 0)")
  have run': "ThanosQuery_syncResources M K w query = ThanosQuery_syncResult M (w3, e3)"
    using build loop
    by (auto simp: ThanosQuery_syncResources_def objs queryObjects_def w2_def Let_def
             split: option.splits)
  from syncObjects_query [OF loop] fr2 m owner
  have l: "ClientErrorsTotal w3 = ClientErrorsTotal w"
    "cluster w3 = syncApplied M K owner objs (cluster w)"
    "e3 = of_nat m"
    "configuredLines w3 = configuredLines w + syncSuccesses M K owner objs (cluster w)"
    by simp_all
  have succ: "syncSuccesses M K owner objs (cluster w) = length objs - m"
    using syncFailures_successes [of M K owner objs "cluster w"] m by simp
  from run run' l(3) have res: "ThanosQuery_syncResult M (w3, of_nat m) = (w', r)" by simp
  note res' = res [unfolded syncResult_query [OF bound]]
  from res' show "r = (if m = 0 then None
              else Some (Errorf
                ''failed to create or update %d resources for the querier and query frontend''
                [ArgInt (int m)]))" by simp
  from res' l show "ClientErrorsTotal w' = AddCounter (ClientErrorsTotal w) (QueryName M) (int m)"
    by auto
  from res' l show "cluster w' = syncApplied M K owner objs (cluster w)" by auto
  from res' l succ show "configuredLines w' = configuredLines w + (length objs - m)"
    by (auto simp: configuredLines_def)
qed

lemma store_syncResources_pass:
  assumes build: "buildStore M K store = Returns objs"
    and owner: "owner = ObjectMeta.truncate store"
    and m: "m = syncFailures M K owner objs (cluster w)"
    and bound: "m < 2 ^ 31"
    and run: "ThanosStore_syncResources M K w store = (w', r)"
  shows "r = Returns (if m = 0 then None
              else Some (Errorf ''failed to create or update %d resources for the store''
                [ArgInt (int m)]))"
    and "ClientErrorsTotal w' = AddCounter (ClientErrorsTotal w) (StoreName M) (int m)"
    and "cluster w' = syncApplied M K owner objs (cluster w)"
    and "configuredLines w' = configuredLines w + (length objs - m)"
proof -
  obtain w3 e3 where loop: "ThanosStore_syncObjects M K store objs (w, 0) = (w3, e3)"
    by (cases "ThanosStore_syncObjects M K store objs (w, 0)")
  from syncObjects_store [OF loop] m owner
  have l: "ClientErrorsTotal w3 = ClientErrorsTotal w"
    "cluster w3 = syncApplied M K owner objs (cluster w)"
    "e3 = of_nat m"
    "configuredLines w3 = configuredLines w + syncSuccesses M K owner objs (cluster w)"
    by simp_all
  have succ: "syncSuccesses M K owner objs (cluster w) = length objs - m"
    using syncFailures_successes [of M K owner objs "cluster w"] m by simp
  have res: "(case ThanosStore_syncResult M (w3, of_nat m) of (w', r) \<Rightarrow> (w', Returns r)) = (w', r)"
    using build loop run l(3) by (simp add: ThanosStore_syncResources_def)
  note res' = res [unfolded syncResult_store [OF bound]]
  from res' show "r = Returns (if m = 0 then None
              else Some (Errorf ''failed to create or update %d resources for the store''
                [ArgInt (int m)]))" by auto
  from res' l show "ClientErrorsTotal w' = AddCounter (ClientErrorsTotal w) (StoreName M) (int m)"
    by auto
  from res' l show "cluster w' = syncApplied M K owner objs (cluster w)" by auto
  from res' l succ show "configuredLines w' = configuredLines w + (length objs - m)"
    by (auto simp: configuredLines_def)
qed

text \<open>
  C2. A sync pass over the desired objects in which exactly \<open>m\<close> objects fail, at the
  owner reference or at the create/update: every object is tried, whatever happened to the
  ones before it; the error returned reports \<open>m\<close>, and there is no error when \<open>m = 0\<close>; the
  client-error counter grows by \<open>m\<close>; the cluster is left with the mutations of the objects
  that did not fail, none of them undone, and there are \<open>N - m\<close> of them. This holds for the
  pass of the ThanosQuery controller (once the querier's objects are built) and for that of
  the ThanosStore controller (once the store's objects are built). The count is kept in an
  \<^verbatim>\<open>int32\<close>, so \<open>m\<close> is below \<open>2 ^ 31\<close>.
\<close>

theorem syncResources_partial_failure:
  assumes "mq = syncFailures M K (ObjectMeta.truncate query)
                  (queryObjects M query querierObjs) (cluster w)"
    and "ms = syncFailures M K (ObjectMeta.truncate store) desiredObjs (cluster w)"
  shows
    "(buildQuerier M K w query = (w1, Inr querierObjs) \<and> mq < 2 ^ 31 \<and>
      ThanosQuery_syncResources M K w query = (wq, rq) \<longrightarrow>
        rq = (if mq = 0 then None
              else Some (Errorf
                ''failed to create or update %d resources for the querier and query frontend''
                [ArgInt (int mq)])) \<and>
        ClientErrorsTotal wq = AddCounter (ClientErrorsTotal w) (QueryName M) (int mq) \<and>
        cluster wq = syncApplied M K (ObjectMeta.truncate query)
                       (queryObjects M query querierObjs) (cluster w) \<and>
        configuredLines wq =
          configuredLines w + (length (queryObjects M query querierObjs) - mq))
     \<and>
     (buildStore M K store = Returns desiredObjs \<and> ms < 2 ^ 31 \<and>
      ThanosStore_syncResources M K w store = (ws, rs) \<longrightarrow>
        rs = Returns (if ms = 0 then None
              else Some (Errorf ''failed to create or update %d resources for the store''
                [ArgInt (int ms)])) \<and>
        ClientErrorsTotal ws = AddCounter (ClientErrorsTotal w) (StoreName M) (int ms) \<and>
        cluster ws = syncApplied M K (ObjectMeta.truncate store) desiredObjs (cluster w) \<and>
        configuredLines ws = configuredLines w + (length desiredObjs - ms))"
proof (intro conjI impI)
  assume q: "buildQuerier M K w query = (w1, Inr querierObjs) \<and> mq < 2 ^ 31 \<and>
      ThanosQuery_syncResources M K w query = (wq, rq)"
  note pass = query_syncResources_pass [OF _ refl refl assms(1), of w1 wq rq]
  from q pass(1) show "rq = (if mq = 0 then None
              else Some (Errorf
                ''failed to create or update %d resources for the querier and query frontend''
                [ArgInt (int mq)]))" by blast
  from q pass(2) show "ClientErrorsTotal wq = AddCounter (ClientErrorsTotal w) (QueryName M) (int mq)"
    by blast
  from q pass(3) show "cluster wq = syncApplied M K (ObjectMeta.truncate query)
                       (queryObjects M query querierObjs) (cluster w)" by blast
  from q pass(4) show "configuredLines wq =
          configuredLines w + (length (queryObjects M query querierObjs) - mq)" by blast
next
  assume s: "buildStore M K store = Returns desiredObjs \<and> ms < 2 ^ 31 \<and>
      ThanosStore_syncResources M K w store = (ws, rs)"
  note pass = store_syncResources_pass [OF _ refl assms(2), of ws rs]
  from s pass(1) show "rs = Returns (if ms = 0 then None
              else Some (Errorf ''failed to create or update %d resources for the store''
                [ArgInt (int ms)]))" by blast
  from s pass(2) show "ClientErrorsTotal ws = AddCounter (ClientErrorsTotal w) (StoreName M) (int ms)"
    by blast
  from s pass(3) show "cluster ws = syncApplied M K (ObjectMeta.truncate store) desiredObjs (cluster w)"
    by blast
  from s pass(4) show "configuredLines ws = configuredLines w + (length desiredObjs - ms)" by blast
qed

theorem syncResources_partial_failure_witness:
  "snd (buildQuerier exampleManifests exampleKube exampleWorld (exampleQuery ''q1'' None None)) =
     Inr [''serviceaccount'', ''deployment'', ''service'']
   \<and> syncFailures exampleManifests exampleKube
         (ObjectMeta.truncate (exampleQuery ''q1'' None None))
         [''serviceaccount'', ''deployment'', ''service''] [] = 1
   \<and> snd (ThanosQuery_syncResources exampleManifests exampleKube exampleWorld
             (exampleQuery ''q1'' None None)) =
       Some (Errorf
         ''failed to create or update %d resources for the querier and query frontend''
         [ArgInt 1])
   \<and> ClientErrorsTotal
         (fst (ThanosQuery_syncResources exampleManifests exampleKube exampleWorld
                 (exampleQuery ''q1'' None None))) ''thanos-query'' = 1
   \<and> cluster
         (fst (ThanosQuery_syncResources exampleManifests exampleKube exampleWorld
                 (exampleQuery ''q1'' None None))) = [''serviceaccount'', ''service'']
   \<and> buildStore exampleManifests exampleKube (exampleStore ''s1'' None ''1Gi'') =
       Returns [''statefulset'', ''service'']
   \<and> syncFailures exampleManifests exampleKube
         (ObjectMeta.truncate (exampleStore ''s1'' None ''1Gi''))
         [''statefulset'', ''service''] [] = 0
   \<and> snd (ThanosStore_syncResources exampleManifests exampleKube exampleWorld
             (exampleStore ''s1'' None ''1Gi'')) = Returns None
   \<and> cluster
         (fst (ThanosStore_syncResources exampleManifests exampleKube exampleWorld
                 (exampleStore ''s1'' None ''1Gi''))) = [''statefulset'', ''service'']"
proof -
  let ?q = "exampleQuery ''q1'' None None"
  let ?s = "exampleStore ''s1'' None ''1Gi''"
  let ?qobjs = "[''serviceaccount'', ''deployment'', ''service'']"
  let ?sobjs = "[''statefulset'', ''service'']"
  have bq: "snd (buildQuerier exampleManifests exampleKube exampleWorld ?q) = Inr ?qobjs"
    by (simp add: buildQuerier_def getStoreAPIServiceEndpoints_def exampleManifests_def
          exampleKube_def exampleQuery_def querySpec_def Let_def split: prod.splits)
  have qo: "queryObjects exampleManifests ?q ?qobjs = ?qobjs"
    by (simp add: queryObjects_def exampleQuery_def querySpec_def)
  have fq: "syncFailures exampleManifests exampleKube (ObjectMeta.truncate ?q) ?qobjs [] = 1"
    by (simp add: syncAttempt_def exampleManifests_def exampleKube_def)
  have aq: "syncApplied exampleManifests exampleKube (ObjectMeta.truncate ?q) ?qobjs [] =
              [''serviceaccount'', ''service'']"
    by (simp add: syncAttempt_def exampleManifests_def exampleKube_def)
  have bs: "buildStore exampleManifests exampleKube ?s = Returns ?sobjs"
    by (simp add: buildStore_def MustParse_def exampleManifests_def exampleKube_def
          exampleStore_def Let_def)
  have fs: "syncFailures exampleManifests exampleKube (ObjectMeta.truncate ?s) ?sobjs [] = 0"
    by (simp add: syncAttempt_def exampleManifests_def exampleKube_def)
  have as: "syncApplied exampleManifests exampleKube (ObjectMeta.truncate ?s) ?sobjs [] = ?sobjs"
    by (simp add: syncAttempt_def exampleManifests_def exampleKube_def)
  have c0: "cluster exampleWorld = []" "ClientErrorsTotal exampleWorld = (\<lambda>_. 0)"
    by (simp_all add: exampleWorld_def)
  have qn: "QueryName exampleManifests = ''thanos-query''"
    by (simp add: exampleManifests_def)
  note t = syncResources_partial_failure
    [of 1 exampleManifests exampleKube ?q ?qobjs exampleWorld 0 ?s ?sobjs
        "fst (buildQuerier exampleManifests exampleKube exampleWorld ?q)"
        "fst (ThanosQuery_syncResources exampleManifests exampleKube exampleWorld ?q)"
        "snd (ThanosQuery_syncResources exampleManifests exampleKube exampleWorld ?q)"
        "fst (ThanosStore_syncResources exampleManifests exampleKube exampleWorld ?s)"
        "snd (ThanosStore_syncResources exampleManifests exampleKube exampleWorld ?s)"]
  have bq': "buildQuerier exampleManifests exampleKube exampleWorld ?q =
      (fst (buildQuerier exampleManifests exampleKube exampleWorld ?q), Inr ?qobjs)"
    using bq by (metis prod.collapse)
  show ?thesis
    using t bq bq' qo fq aq bs fs as c0 qn
    by (simp add: AddCounter_def)
qed

subsection \<open>Reconcile: the fetch\<close>

text \<open>
  C3, as stated, has a not-found fetch leave the client-error counter unchanged. Both
  \<^verbatim>\<open>Reconcile\<close> functions increment the counter as soon as the fetch returns an error, and
  only then ask whether the error is not-found: on a request for a ThanosQuery that does not
  exist the counter goes up by one.
\<close>

theorem Reconcile_not_found_counts_client_error:
  "GetThanosQuery exampleKube (cluster exampleWorld) (NamespacedName (requestOf ''q-gone'')) =
     Inl (StatusNotFound ''thanosqueries not found'')
   \<and> IsNotFound (StatusNotFound ''thanosqueries not found'')
   \<and> ClientErrorsTotal
         (fst (ThanosQuery_Reconcile exampleManifests exampleKube exampleWorld (requestOf ''q-gone'')))
         (QueryName exampleManifests) =
       ClientErrorsTotal exampleWorld (QueryName exampleManifests) + 1"
  by (simp add: ThanosQuery_Reconcile_def exampleKube_def exampleManifests_def exampleWorld_def
        requestOf_def Let_def logger_def AddCounter_def)

text \<open>
  C3, amended. When the fetch of the resource returns not-found, \<^verbatim>\<open>Reconcile\<close> returns
  success with no error and no requeue, emits no event, writes nothing to the cluster and
  leaves the reconciliations-failed counter unchanged; the client-error counter is
  incremented by one on every fetch error, not-found included. This holds for both
  controllers.
\<close>

theorem Reconcile_not_found:
  "(GetThanosQuery K (cluster w) (NamespacedName req) = Inl err \<and> IsNotFound err \<longrightarrow>
      snd (ThanosQuery_Reconcile M K w req) = (emptyResult, None) \<and>
      \<not> Requeue emptyResult \<and> RequeueAfter emptyResult = 0 \<and>
      events (fst (ThanosQuery_Reconcile M K w req)) = events w \<and>
      cluster (fst (ThanosQuery_Reconcile M K w req)) = cluster w \<and>
      ReconciliationsFailedTotal (fst (ThanosQuery_Reconcile M K w req)) =
        ReconciliationsFailedTotal w \<and>
      ClientErrorsTotal (fst (ThanosQuery_Reconcile M K w req)) =
        AddCounter (ClientErrorsTotal w) (QueryName M) 1)
   \<and> (GetThanosQuery K (cluster w) (NamespacedName req) = Inl err \<longrightarrow>
      ClientErrorsTotal (fst (ThanosQuery_Reconcile M K w req)) =
        AddCounter (ClientErrorsTotal w) (QueryName M) 1)
   \<and> (GetThanosStore K (cluster w) (NamespacedName req) = Inl err \<and> IsNotFound err \<longrightarrow>
      snd (ThanosStore_Reconcile M K w req) = Returns (emptyResult, None) \<and>
      events (fst (ThanosStore_Reconcile M K w req)) = events w \<and>
      cluster (fst (ThanosStore_Reconcile M K w req)) = cluster w \<and>
      ReconciliationsFailedTotal (fst (ThanosStore_Reconcile M K w req)) =
        ReconciliationsFailedTotal w \<and>
      ClientErrorsTotal (fst (ThanosStore_Reconcile M K w req)) =
        AddCounter (ClientErrorsTotal w) (StoreName M) 1)
   \<and> (GetThanosStore K (cluster w) (NamespacedName req) = Inl err \<longrightarrow>
      ClientErrorsTotal (fst (ThanosStore_Reconcile M K w req)) =
        AddCounter (ClientErrorsTotal w) (StoreName M) 1)"
  by (simp add: ThanosQuery_Reconcile_def ThanosStore_Reconcile_def Let_def logger_def
        RecorderEvent_def emptyResult_def)

theorem Reconcile_not_found_witness:
  "GetThanosQuery exampleKube (cluster exampleWorld) (NamespacedName (requestOf ''q-gone'')) =
     Inl (StatusNotFound ''thanosqueries not found'')
   \<and> GetThanosStore exampleKube (cluster exampleWorld) (NamespacedName (requestOf ''s-gone'')) =
     Inl (StatusNotFound ''thanosstores not found'')
   \<and> snd (ThanosQuery_Reconcile exampleManifests exampleKube exampleWorld (requestOf ''q-gone'')) =
       (emptyResult, None)
   \<and> events (fst (ThanosQuery_Reconcile exampleManifests exampleKube exampleWorld
                    (requestOf ''q-gone''))) = []
   \<and> ClientErrorsTotal (fst (ThanosQuery_Reconcile exampleManifests exampleKube exampleWorld
                    (requestOf ''q-gone''))) ''thanos-query'' = 1
   \<and> snd (ThanosStore_Reconcile exampleManifests exampleKube exampleWorld (requestOf ''s-gone'')) =
       Returns (emptyResult, None)
   \<and> ClientErrorsTotal (fst (ThanosStore_Reconcile exampleManifests exampleKube exampleWorld
                    (requestOf ''s-gone''))) ''thanos-store'' = 1"
proof -
  have gq: "GetThanosQuery exampleKube (cluster exampleWorld) (NamespacedName (requestOf ''q-gone'')) =
     Inl (StatusNotFound ''thanosqueries not found'')"
    by (simp add: exampleKube_def requestOf_def)
  have gs: "GetThanosStore exampleKube (cluster exampleWorld) (NamespacedName (requestOf ''s-gone'')) =
     Inl (StatusNotFound ''thanosstores not found'')"
    by (simp add: exampleKube_def requestOf_def)
  have c: "events exampleWorld = []" "ClientErrorsTotal exampleWorld = (\<lambda>_. 0)"
    "QueryName exampleManifests = ''thanos-query''" "StoreName exampleManifests = ''thanos-store''"
    by (simp_all add: exampleWorld_def exampleManifests_def)
  show ?thesis
    using Reconcile_not_found [of exampleKube exampleWorld "requestOf ''q-gone''"
            "StatusNotFound ''thanosqueries not found''" exampleManifests]
          Reconcile_not_found [of exampleKube exampleWorld "requestOf ''s-gone''"
            "StatusNotFound ''thanosstores not found''" exampleManifests]
          gq gs c
    by (simp add: AddCounter_def)
qed

subsection \<open>Reconcile: the pause flag\<close>

text \<open>
  C6, as stated, has a paused pass do nothing but emit its event. Both \<^verbatim>\<open>Reconcile\<close>
  functions count every pass in the reconciliations-total counter before they fetch the
  resource, and log a line when they find it paused: on a paused ThanosQuery the counter
  goes up by one and the log gains a line.
\<close>

theorem Reconcile_paused_counts_reconciliation:
  "GetThanosQuery exampleKube (cluster exampleWorld) (NamespacedName (requestOf ''q-paused'')) =
     Inr (exampleQuery ''q-paused'' (Some True) None)
   \<and> Paused (Spec (exampleQuery ''q-paused'' (Some True) None)) = Some True
   \<and> ReconciliationsTotal
         (fst (ThanosQuery_Reconcile exampleManifests exampleKube exampleWorld
                 (requestOf ''q-paused'')))
         (QueryName exampleManifests) =
       ReconciliationsTotal exampleWorld (QueryName exampleManifests) + 1
   \<and> logs (fst (ThanosQuery_Reconcile exampleManifests exampleKube exampleWorld
                  (requestOf ''q-paused''))) =
       logs exampleWorld @ [LogInfo ''reconciliation is paused for ThanosQuery resource'']"
  by (simp add: ThanosQuery_Reconcile_def exampleKube_def exampleManifests_def exampleWorld_def
        requestOf_def exampleQuery_def querySpec_def Let_def logger_def RecorderEvent_def
        AddCounter_def)

text \<open>
  C6, amended. For every resource whose pause flag is set to true, \<^verbatim>\<open>Reconcile\<close> emits
  exactly one informational event (reason Paused), writes nothing to the cluster and
  returns success with no requeue; its only other effects are the increment of the
  reconciliations-total counter that every pass makes on entry and one informational log
  line. The world after the pass is the world before it with exactly these three changes.
  This holds for both controllers.
\<close>

theorem Reconcile_paused:
  "(GetThanosQuery K (cluster w) (NamespacedName req) = Inr query \<and>
    Paused (Spec query) = Some True \<longrightarrow>
      ThanosQuery_Reconcile M K w req =
        (w\<lparr>ReconciliationsTotal := AddCounter (ReconciliationsTotal w) (QueryName M) 1,
           events := events w @
             [\<lparr>InvolvedObject = ObjectMeta.truncate query, EventType = EventTypeNormal,
               Reason = ''Paused'',
               Message = Sprintf ''Reconciliation is paused for ThanosQuery resource'' []\<rparr>],
           logs := logs w @ [LogInfo ''reconciliation is paused for ThanosQuery resource'']\<rparr>,
         emptyResult, None) \<and>
      \<not> Requeue emptyResult \<and> RequeueAfter emptyResult = 0 \<and>
      cluster (fst (ThanosQuery_Reconcile M K w req)) = cluster w)
   \<and> (GetThanosStore K (cluster w) (NamespacedName req) = Inr store \<and>
    Paused (Spec store) = Some True \<longrightarrow>
      ThanosStore_Reconcile M K w req =
        (w\<lparr>ReconciliationsTotal := AddCounter (ReconciliationsTotal w) (StoreName M) 1,
           events := events w @
             [\<lparr>InvolvedObject = ObjectMeta.truncate store, EventType = EventTypeNormal,
               Reason = ''Paused'',
               Message = Sprintf ''Reconciliation is paused for ThanosStore resource'' []\<rparr>],
           logs := logs w @ [LogInfo ''reconciliation is paused for ThanosStore'']\<rparr>,
         Returns (emptyResult, None)) \<and>
      cluster (fst (ThanosStore_Reconcile M K w req)) = cluster w)"
  by (simp add: ThanosQuery_Reconcile_def ThanosStore_Reconcile_def Let_def logger_def
        RecorderEvent_def emptyResult_def)

theorem Reconcile_paused_witness:
  "GetThanosQuery exampleKube (cluster exampleWorld) (NamespacedName (requestOf ''q-paused'')) =
     Inr (exampleQuery ''q-paused'' (Some True) None)
   \<and> Paused (Spec (exampleQuery ''q-paused'' (Some True) None)) = Some True
   \<and> GetThanosStore exampleKube (cluster exampleWorld) (NamespacedName (requestOf ''s-paused'')) =
     Inr (exampleStore ''s-paused'' (Some True) ''1Gi'')
   \<and> Paused (Spec (exampleStore ''s-paused'' (Some True) ''1Gi'')) = Some True
   \<and> snd (ThanosQuery_Reconcile exampleManifests exampleKube exampleWorld
             (requestOf ''q-paused'')) = (emptyResult, None)
   \<and> map Reason (events (fst (ThanosQuery_Reconcile exampleManifests exampleKube exampleWorld
             (requestOf ''q-paused'')))) = [''Paused'']
   \<and> cluster (fst (ThanosQuery_Reconcile exampleManifests exampleKube exampleWorld
             (requestOf ''q-paused''))) = []
   \<and> snd (ThanosStore_Reconcile exampleManifests exampleKube exampleWorld
             (requestOf ''s-paused'')) = Returns (emptyResult, None)
   \<and> map Reason (events (fst (ThanosStore_Reconcile exampleManifests exampleKube exampleWorld
             (requestOf ''s-paused'')))) = [''Paused'']
   \<and> cluster (fst (ThanosStore_Reconcile exampleManifests exampleKube exampleWorld
             (requestOf ''s-paused''))) = []"
proof -
  have gq: "GetThanosQuery exampleKube (cluster exampleWorld) (NamespacedName (requestOf ''q-paused'')) =
     Inr (exampleQuery ''q-paused'' (Some True) None)"
    by (simp add: exampleKube_def requestOf_def)
  have pq: "Paused (Spec (exampleQuery ''q-paused'' (Some True) None)) = Some True"
    by (simp add: exampleQuery_def querySpec_def)
  have gs: "GetThanosStore exampleKube (cluster exampleWorld) (NamespacedName (requestOf ''s-paused'')) =
     Inr (exampleStore ''s-paused'' (Some True) ''1Gi'')"
    by (simp add: exampleKube_def requestOf_def)
  have ps: "Paused (Spec (exampleStore ''s-paused'' (Some True) ''1Gi'')) = Some True"
    by (simp add: exampleStore_def)
  have c: "events exampleWorld = []" "cluster exampleWorld = []"
    by (simp_all add: exampleWorld_def)
  show ?thesis
    using Reconcile_paused [of exampleKube exampleWorld "requestOf ''q-paused''"
            "exampleQuery ''q-paused'' (Some True) None" exampleManifests
            "exampleStore ''s-paused'' (Some True) ''1Gi''"]
          Reconcile_paused [of exampleKube exampleWorld "requestOf ''s-paused''"
            "exampleQuery ''q-paused'' (Some True) None" exampleManifests
            "exampleStore ''s-paused'' (Some True) ''1Gi''"]
          gq pq gs ps c
    by simp
qed

text \<open>
  No step of \<^verbatim>\<open>syncResources\<close> emits an event of reason Paused: the events it emits are
  NoEndpointsFound, BuildingQueryFrontend and, in the store controller, SyncFailed.
\<close>

lemma eventsOf_logger [simp]: "eventsOf reason (logger l w) = eventsOf reason w"
  by (simp add: eventsOf_def logger_def)

lemma eventsOf_cluster [simp]: "eventsOf reason (w\<lparr>cluster := c\<rparr>) = eventsOf reason w"
  by (simp add: eventsOf_def)

lemma eventsOf_ClientErrorsTotal [simp]:
  "eventsOf reason (w\<lparr>ClientErrorsTotal := f\<rparr>) = eventsOf reason w"
  by (simp add: eventsOf_def)

lemma eventsOf_ReconciliationsFailedTotal [simp]:
  "eventsOf reason (w\<lparr>ReconciliationsFailedTotal := f\<rparr>) = eventsOf reason w"
  by (simp add: eventsOf_def)

lemma eventsOf_ReconciliationsTotal [simp]:
  "eventsOf reason (w\<lparr>ReconciliationsTotal := f\<rparr>) = eventsOf reason w"
  by (simp add: eventsOf_def)

lemma syncObject_query_Paused:
  "eventsOf ''Paused'' (fst (ThanosQuery_syncObject M K query obj st)) = eventsOf ''Paused'' (fst st)"
  by (cases st) (auto simp: ThanosQuery_syncObject_def split: sum.splits prod.splits)

lemma syncObjects_query_Paused:
  "eventsOf ''Paused'' (fst (ThanosQuery_syncObjects M K query objs st)) = eventsOf ''Paused'' (fst st)"
  by (induction objs arbitrary: st) (simp_all add: syncObject_query_Paused)

lemma syncObject_store_Paused:
  "eventsOf ''Paused'' (fst (ThanosStore_syncObject M K store obj st)) = eventsOf ''Paused'' (fst st)"
  by (cases st)
     (auto simp: ThanosStore_syncObject_def eventsOf_RecorderEvent split: sum.splits prod.splits)

lemma syncObjects_store_Paused:
  "eventsOf ''Paused'' (fst (ThanosStore_syncObjects M K store objs st)) = eventsOf ''Paused'' (fst st)"
  by (induction objs arbitrary: st) (simp_all add: syncObject_store_Paused)

lemma syncResult_query_Paused:
  "eventsOf ''Paused'' (fst (ThanosQuery_syncResult M st)) = eventsOf ''Paused'' (fst st)"
  by (cases st) (simp add: ThanosQuery_syncResult_def)

lemma syncResult_store_Paused:
  "eventsOf ''Paused'' (fst (ThanosStore_syncResult M st)) = eventsOf ''Paused'' (fst st)"
  by (cases st) (simp add: ThanosStore_syncResult_def)

lemma query_syncResources_Paused:
  "eventsOf ''Paused'' (fst (ThanosQuery_syncResources M K w query)) = eventsOf ''Paused'' w"
proof -
  obtain w1 r1 where b: "buildQuerier M K w query = (w1, r1)"
    by (cases "buildQuerier M K w query")
  have f: "eventsOf ''Paused'' w1 = eventsOf ''Paused'' w"
    using buildQuerier_frame [OF b] by simp
  show ?thesis
    using b f
    by (auto simp: ThanosQuery_syncResources_def Let_def syncResult_query_Paused
          syncObjects_query_Paused eventsOf_RecorderEvent
        split: sum.splits option.splits)
qed

lemma store_syncResources_Paused:
  "eventsOf ''Paused'' (fst (ThanosStore_syncResources M K w store)) = eventsOf ''Paused'' w"
proof (cases "buildStore M K store")
  case (Panics msg)
  then show ?thesis by (simp add: ThanosStore_syncResources_def)
next
  case (Returns objs)
  have "eventsOf ''Paused'' (fst (ThanosStore_syncResult M (ThanosStore_syncObjects M K store objs (w, 0))))
        = eventsOf ''Paused'' w"
    by (simp add: syncResult_store_Paused syncObjects_store_Paused)
  with Returns show ?thesis
    by (auto simp: ThanosStore_syncResources_def split: prod.splits)
qed

text \<open>
  C10. A resource whose pause flag is absent (a nil pointer) is not paused: \<^verbatim>\<open>Reconcile\<close>
  goes on to \<^verbatim>\<open>syncResources\<close>, that is to the build of the desired objects and their sync,
  returns the error that \<^verbatim>\<open>syncResources\<close> returns, leaves the cluster as
  \<^verbatim>\<open>syncResources\<close> leaves it, and emits no Paused event. The same holds for a flag set to
  false: the Paused event is emitted, once, only for a flag set to true. This holds for both
  controllers; the store controller panics where its \<^verbatim>\<open>syncResources\<close> panics.
\<close>

theorem Reconcile_pause_flag:
  "(GetThanosQuery K (cluster w) (NamespacedName req) = Inr query \<and>
    Paused (Spec query) \<noteq> Some True \<longrightarrow>
      snd (snd (ThanosQuery_Reconcile M K w req)) =
        snd (ThanosQuery_syncResources M K
               (w\<lparr>ReconciliationsTotal := AddCounter (ReconciliationsTotal w) (QueryName M) 1\<rparr>)
               query) \<and>
      cluster (fst (ThanosQuery_Reconcile M K w req)) =
        cluster (fst (ThanosQuery_syncResources M K
               (w\<lparr>ReconciliationsTotal := AddCounter (ReconciliationsTotal w) (QueryName M) 1\<rparr>)
               query)) \<and>
      eventsOf ''Paused'' (fst (ThanosQuery_Reconcile M K w req)) = eventsOf ''Paused'' w)
   \<and> (GetThanosQuery K (cluster w) (NamespacedName req) = Inr query \<and>
    Paused (Spec query) = Some True \<longrightarrow>
      length (eventsOf ''Paused'' (fst (ThanosQuery_Reconcile M K w req))) =
        Suc (length (eventsOf ''Paused'' w)))
   \<and> (GetThanosStore K (cluster w) (NamespacedName req) = Inr store \<and>
    Paused (Spec store) \<noteq> Some True \<longrightarrow>
      snd (ThanosStore_Reconcile M K w req) =
        (case snd (ThanosStore_syncResources M K
               (w\<lparr>ReconciliationsTotal := AddCounter (ReconciliationsTotal w) (StoreName M) 1\<rparr>)
               store) of
           Panics msg \<Rightarrow> Panics msg
         | Returns err \<Rightarrow> Returns (emptyResult, err)) \<and>
      cluster (fst (ThanosStore_Reconcile M K w req)) =
        cluster (fst (ThanosStore_syncResources M K
               (w\<lparr>ReconciliationsTotal := AddCounter (ReconciliationsTotal w) (StoreName M) 1\<rparr>)
               store)) \<and>
      eventsOf ''Paused'' (fst (ThanosStore_Reconcile M K w req)) = eventsOf ''Paused'' w)
   \<and> (GetThanosStore K (cluster w) (NamespacedName req) = Inr store \<and>
    Paused (Spec store) = Some True \<longrightarrow>
      length (eventsOf ''Paused'' (fst (ThanosStore_Reconcile M K w req))) =
        Suc (length (eventsOf ''Paused'' w)))"
proof (intro conjI impI)
  let ?w0 = "w\<lparr>ReconciliationsTotal := AddCounter (ReconciliationsTotal w) (QueryName M) 1\<rparr>"
  assume a: "GetThanosQuery K (cluster w) (NamespacedName req) = Inr query \<and>
    Paused (Spec query) \<noteq> Some True"
  then have np: "(case Paused (Spec query) of None \<Rightarrow> False | Some paused \<Rightarrow> paused) = False"
    by (cases "Paused (Spec query)") auto
  obtain w1 r where s: "ThanosQuery_syncResources M K ?w0 query = (w1, r)"
    by (cases "ThanosQuery_syncResources M K ?w0 query")
  have ev: "eventsOf ''Paused'' w1 = eventsOf ''Paused'' w"
    using query_syncResources_Paused [of M K ?w0 query] s by simp
  from a np s show "snd (snd (ThanosQuery_Reconcile M K w req)) =
        snd (ThanosQuery_syncResources M K ?w0 query)"
    by (cases r) (simp_all add: ThanosQuery_Reconcile_def Let_def)
  from a np s show "cluster (fst (ThanosQuery_Reconcile M K w req)) =
        cluster (fst (ThanosQuery_syncResources M K ?w0 query))"
    by (cases r) (simp_all add: ThanosQuery_Reconcile_def Let_def RecorderEvent_def)
  from a np s ev show "eventsOf ''Paused'' (fst (ThanosQuery_Reconcile M K w req)) = eventsOf ''Paused'' w"
    by (cases r) (simp_all add: ThanosQuery_Reconcile_def Let_def eventsOf_RecorderEvent)
next
  assume a: "GetThanosQuery K (cluster w) (NamespacedName req) = Inr query \<and>
    Paused (Spec query) = Some True"
  then show "length (eventsOf ''Paused'' (fst (ThanosQuery_Reconcile M K w req))) =
        Suc (length (eventsOf ''Paused'' w))"
    by (simp add: ThanosQuery_Reconcile_def Let_def eventsOf_RecorderEvent)
next
  let ?w0 = "w\<lparr>ReconciliationsTotal := AddCounter (ReconciliationsTotal w) (StoreName M) 1\<rparr>"
  assume a: "GetThanosStore K (cluster w) (NamespacedName req) = Inr store \<and>
    Paused (Spec store) \<noteq> Some True"
  then have np: "(case Paused (Spec store) of None \<Rightarrow> False | Some paused \<Rightarrow> paused) = False"
    by (cases "Paused (Spec store)") auto
  obtain w1 r where s: "ThanosStore_syncResources M K ?w0 store = (w1, r)"
    by (cases "ThanosStore_syncResources M K ?w0 store")
  have ev: "eventsOf ''Paused'' w1 = eventsOf ''Paused'' w"
    using store_syncResources_Paused [of M K ?w0 store] s by simp
  from a np s show "snd (ThanosStore_Reconcile M K w req) =
        (case snd (ThanosStore_syncResources M K ?w0 store) of
           Panics msg \<Rightarrow> Panics msg
         | Returns err \<Rightarrow> Returns (emptyResult, err))"
    by (cases r) (auto simp: ThanosStore_Reconcile_def Let_def split: option.splits)
  from a np s show "cluster (fst (ThanosStore_Reconcile M K w req)) =
        cluster (fst (ThanosStore_syncResources M K ?w0 store))"
    by (cases r) (auto simp: ThanosStore_Reconcile_def Let_def RecorderEvent_def split: option.splits)
  from a np s ev show "eventsOf ''Paused'' (fst (ThanosStore_Reconcile M K w req)) = eventsOf ''Paused'' w"
    by (cases r) (auto simp: ThanosStore_Reconcile_def Let_def eventsOf_RecorderEvent split: option.splits)
next
  assume a: "GetThanosStore K (cluster w) (NamespacedName req) = Inr store \<and>
    Paused (Spec store) = Some True"
  then show "length (eventsOf ''Paused'' (fst (ThanosStore_Reconcile M K w req))) =
        Suc (length (eventsOf ''Paused'' w))"
    by (simp add: ThanosStore_Reconcile_def Let_def eventsOf_RecorderEvent)
qed


theorem Reconcile_pause_flag_witness:
  "GetThanosQuery exampleKube (cluster exampleWorld) (NamespacedName (requestOf ''q1'')) =
     Inr (exampleQuery ''q1'' None None)
   \<and> Paused (Spec (exampleQuery ''q1'' None None)) = None
   \<and> GetThanosStore exampleKube (cluster exampleWorld) (NamespacedName (requestOf ''s1'')) =
     Inr (exampleStore ''s1'' None ''1Gi'')
   \<and> Paused (Spec (exampleStore ''s1'' None ''1Gi'')) = None
   \<and> snd (snd (ThanosQuery_Reconcile exampleManifests exampleKube exampleWorld (requestOf ''q1''))) =
       Some (Errorf
         ''failed to create or update %d resources for the querier and query frontend''
         [ArgInt 1])
   \<and> cluster (fst (ThanosQuery_Reconcile exampleManifests exampleKube exampleWorld
                     (requestOf ''q1''))) = [''serviceaccount'', ''service'']
   \<and> eventsOf ''Paused'' (fst (ThanosQuery_Reconcile exampleManifests exampleKube exampleWorld
                     (requestOf ''q1''))) = []
   \<and> snd (ThanosStore_Reconcile exampleManifests exampleKube exampleWorld (requestOf ''s1'')) =
       Returns (emptyResult, None)
   \<and> cluster (fst (ThanosStore_Reconcile exampleManifests exampleKube exampleWorld
                     (requestOf ''s1''))) = [''statefulset'', ''service'']
   \<and> eventsOf ''Paused'' (fst (ThanosStore_Reconcile exampleManifests exampleKube exampleWorld
                     (requestOf ''s1''))) = []"
proof -
  let ?q = "exampleQuery ''q1'' None None"
  let ?s = "exampleStore ''s1'' None ''1Gi''"
  let ?wq = "exampleWorld\<lparr>ReconciliationsTotal :=
               AddCounter (ReconciliationsTotal exampleWorld) (QueryName exampleManifests) 1\<rparr>"
  let ?ws = "exampleWorld\<lparr>ReconciliationsTotal :=
               AddCounter (ReconciliationsTotal exampleWorld) (StoreName exampleManifests) 1\<rparr>"
  have gq: "GetThanosQuery exampleKube (cluster exampleWorld) (NamespacedName (requestOf ''q1'')) =
     Inr ?q"
    by (simp add: exampleKube_def requestOf_def)
  have pq: "Paused (Spec ?q) = None"
    by (simp add: exampleQuery_def querySpec_def)
  have gs: "GetThanosStore exampleKube (cluster exampleWorld) (NamespacedName (requestOf ''s1'')) =
     Inr ?s"
    by (simp add: exampleKube_def requestOf_def)
  have ps: "Paused (Spec ?s) = None"
    by (simp add: exampleStore_def)
  have sq: "snd (ThanosQuery_syncResources exampleManifests exampleKube ?wq ?q) =
      Some (Errorf
         ''failed to create or update %d resources for the querier and query frontend''
         [ArgInt 1])"
    "cluster (fst (ThanosQuery_syncResources exampleManifests exampleKube ?wq ?q)) =
      [''serviceaccount'', ''service'']"
    by (simp_all add: ThanosQuery_syncResources_def ThanosQuery_syncResult_def
          ThanosQuery_syncObject_def buildQuerier_def getStoreAPIServiceEndpoints_def
          exampleManifests_def exampleKube_def exampleWorld_def exampleQuery_def querySpec_def
          svcNoGrpc_def svcStrict_def getServiceTypeFromLabel_def HasLabel_def
          requiredStoreServiceLabels_def Let_def logger_def AddCounter_def word_sless_alt)
  have ss: "snd (ThanosStore_syncResources exampleManifests exampleKube ?ws ?s) = Returns None"
    "cluster (fst (ThanosStore_syncResources exampleManifests exampleKube ?ws ?s)) =
      [''statefulset'', ''service'']"
    by (simp_all add: ThanosStore_syncResources_def ThanosStore_syncResult_def
          ThanosStore_syncObject_def buildStore_def MustParse_def
          exampleManifests_def exampleKube_def exampleWorld_def exampleStore_def
          Let_def logger_def AddCounter_def word_sless_alt)
  have ev: "eventsOf ''Paused'' exampleWorld = []"
    by (simp add: eventsOf_def exampleWorld_def)
  show ?thesis
    using Reconcile_pause_flag [of exampleKube exampleWorld "requestOf ''q1''" ?q exampleManifests ?s]
          Reconcile_pause_flag [of exampleKube exampleWorld "requestOf ''s1''" ?q exampleManifests ?s]
          gq pq gs ps sq ss ev
    by simp
qed

subsection \<open>The store's desired state\<close>

text \<open>
  \<^verbatim>\<open>buildStore\<close> has no error to return: it parses the storage size with
  \<^verbatim>\<open>resource.MustParse\<close>. Whenever the size does not parse, \<^verbatim>\<open>buildStore\<close> panics, and so
  does \<^verbatim>\<open>Reconcile\<close> for a store that is not paused.
\<close>

lemma buildStore_malformed:
  "ParseQuantity K (ThanosStoreSpec.StorageSize (Spec store)) = None \<Longrightarrow>
     buildStore M K store = Panics ''cannot parse quantity''"
  by (simp add: buildStore_def MustParse_def Let_def)

lemma store_Reconcile_malformed:
  assumes "GetThanosStore K (cluster w) (NamespacedName req) = Inr store"
    and "Paused (Spec store) \<noteq> Some True"
    and "ParseQuantity K (ThanosStoreSpec.StorageSize (Spec store)) = None"
  shows "snd (ThanosStore_Reconcile M K w req) = Panics ''cannot parse quantity''"
proof -
  have np: "(case Paused (Spec store) of None \<Rightarrow> False | Some paused \<Rightarrow> paused) = False"
    using assms(2) by (cases "Paused (Spec store)") auto
  show ?thesis
    using assms(1) np buildStore_malformed [OF assms(3), of M]
    by (simp add: ThanosStore_Reconcile_def ThanosStore_syncResources_def Let_def)
qed

text \<open>
  C4. A store whose storage-size string is malformed is to make the build fail with an
  error returned to the caller, and no failure is to end in anything but a returned result.
  For a store of size \<open>''lots''\<close>, which the quantity parser rejects, \<^verbatim>\<open>buildStore\<close>,
  \<^verbatim>\<open>syncResources\<close> and \<^verbatim>\<open>Reconcile\<close> of the store controller all panic instead of
  returning.
\<close>

theorem store_Reconcile_malformed_size_panics:
  "GetThanosStore exampleKube (cluster exampleWorld) (NamespacedName (requestOf ''s-bad'')) =
     Inr (exampleStore ''s-bad'' None ''lots'')
   \<and> ParseQuantity exampleKube
         (ThanosStoreSpec.StorageSize (Spec (exampleStore ''s-bad'' None ''lots''))) = None
   \<and> buildStore exampleManifests exampleKube (exampleStore ''s-bad'' None ''lots'') =
       Panics ''cannot parse quantity''
   \<and> snd (ThanosStore_syncResources exampleManifests exampleKube exampleWorld
             (exampleStore ''s-bad'' None ''lots'')) = Panics ''cannot parse quantity''
   \<and> snd (ThanosStore_Reconcile exampleManifests exampleKube exampleWorld (requestOf ''s-bad'')) =
       Panics ''cannot parse quantity''"
  by (simp add: ThanosStore_Reconcile_def ThanosStore_syncResources_def buildStore_def
        MustParse_def exampleKube_def exampleManifests_def exampleWorld_def exampleStore_def
        requestOf_def Let_def)

subsection \<open>The watch on services\<close>

lemma And2: "And [p, q] e = (p e \<and> q e)"
  by (simp add: And_def)

lemma And3: "And [p, q, r] e = (p e \<and> q e \<and> r e)"
  by (simp add: And_def)

lemma Or2: "Or [p, q] e = (p e \<or> q e)"
  by (simp add: Or_def)

lemma NewPredicateFuncs_eventObject: "NewPredicateFuncs f e = f (eventObject e)"
  by (cases e) simp_all

lemma enqueueLoop_requests:
  "snd (enqueueLoop M K obj items (w, requests)) =
     requests @ map requestFor (filter (selectsService M K obj) items)"
  by (induction items arbitrary: w requests)
     (auto simp: enqueueForQuery_def selectsService_def requestFor_def split: sum.splits)

lemma enqueueLoop_frame:
  "ServiceWatchesReconciliationsTotal (fst (enqueueLoop M K obj items (w, requests))) =
     ServiceWatchesReconciliationsTotal w \<and>
   cluster (fst (enqueueLoop M K obj items (w, requests))) = cluster w \<and>
   events (fst (enqueueLoop M K obj items (w, requests))) = events w"
  by (induction items arbitrary: w requests)
     (auto simp: enqueueForQuery_def logger_def split: sum.splits)

text \<open>
  C7, as stated, speaks of every service event, and has an event that changes neither labels
  nor generation filtered out. \<^verbatim>\<open>LabelChangedPredicate\<close> and
  \<^verbatim>\<open>GenerationChangedPredicate\<close> compare the two objects of an update only and let every
  other event through: the delete event and the create event of a service that carries the
  base labels, with no change of labels or generation in them, are admitted, and the delete
  event enqueues a request for each ThanosQuery that selects the service.
\<close>

theorem withPredicate_admits_unchanged_delete:
  "withPredicate exampleManifests exampleKube =
     Inr (projr (withPredicate exampleManifests exampleKube))
   \<and> projr (withPredicate exampleManifests exampleKube) (DeleteEvent svcStrict)
   \<and> projr (withPredicate exampleManifests exampleKube) (CreateEvent svcStrict)
   \<and> snd (serviceWatch exampleManifests exampleKube
             (projr (withPredicate exampleManifests exampleKube)) exampleWorld
             (DeleteEvent svcStrict)) =
       [requestOf ''q1'', requestOf ''q-paused'']"
proof -
  let ?p = "projr (withPredicate exampleManifests exampleKube)"
  have w: "withPredicate exampleManifests exampleKube = Inr ?p"
    by (simp add: withPredicate_def LabelSelectorPredicate_def exampleKube_def Let_def)
  have m: "requiredStoreServiceLabels exampleManifests \<subseteq>\<^sub>m GetLabels svcStrict"
    by (simp add: exampleManifests_def requiredStoreServiceLabels_def svcStrict_def
          baseLabels_def map_le_def)
  have d: "?p (DeleteEvent svcStrict)" and c: "?p (CreateEvent svcStrict)"
    using m
    by (simp_all add: withPredicate_def LabelSelectorPredicate_def exampleKube_def Let_def
          Or_def And_def)
  have s1: "selectsService exampleManifests exampleKube svcStrict (exampleQuery ''q1'' None None)"
    by (simp add: selectsService_def exampleManifests_def exampleKube_def exampleQuery_def
          querySpec_def svcStrict_def baseLabels_def requiredStoreServiceLabels_def map_le_def)
  have s2: "\<not> selectsService exampleManifests exampleKube svcStrict
               (exampleQuery ''q-broken'' None (Some brokenSelector))"
    by (simp add: selectsService_def exampleManifests_def exampleQuery_def
          querySpec_def brokenSelector_def)
  have s3: "\<not> selectsService exampleManifests exampleKube svcStrict
               (exampleQuery ''q-gold'' None (Some goldSelector))"
    by (simp add: selectsService_def exampleManifests_def exampleKube_def exampleQuery_def
          querySpec_def svcStrict_def baseLabels_def requiredStoreServiceLabels_def map_le_def
          goldSelector_def)
  have s4: "selectsService exampleManifests exampleKube svcStrict
               (exampleQuery ''q-paused'' (Some True) None)"
    by (simp add: selectsService_def exampleManifests_def exampleKube_def exampleQuery_def
          querySpec_def svcStrict_def baseLabels_def requiredStoreServiceLabels_def map_le_def)
  have q: "isQueueableStoreService exampleManifests svcStrict"
    by (simp add: isQueueableStoreService_def exampleManifests_def svcStrict_def)
  have l: "ListThanosQueries exampleKube (cluster exampleWorld) (GetNamespace svcStrict) =
       Inr [exampleQuery ''q1'' None None,
            exampleQuery ''q-broken'' None (Some brokenSelector),
            exampleQuery ''q-gold'' None (Some goldSelector),
            exampleQuery ''q-paused'' (Some True) None]"
    by (simp add: exampleKube_def svcStrict_def)
  have r: "requestFor (exampleQuery ''q1'' None None) = requestOf ''q1''"
    "requestFor (exampleQuery ''q-paused'' (Some True) None) = requestOf ''q-paused''"
    by (simp_all add: requestFor_def requestOf_def exampleQuery_def)
  have lp: "snd (enqueueLoop exampleManifests exampleKube svcStrict
                   [exampleQuery ''q1'' None None,
                    exampleQuery ''q-broken'' None (Some brokenSelector),
                    exampleQuery ''q-gold'' None (Some goldSelector),
                    exampleQuery ''q-paused'' (Some True) None] (exampleWorld, [])) =
       [requestOf ''q1'', requestOf ''q-paused'']"
    unfolding enqueueLoop_requests using s1 s2 s3 s4 r by simp
  have e: "snd (enqueueForService exampleManifests exampleKube exampleWorld svcStrict) =
       [requestOf ''q1'', requestOf ''q-paused'']"
  proof -
    obtain w' rs where pair: "enqueueLoop exampleManifests exampleKube svcStrict
                   [exampleQuery ''q1'' None None,
                    exampleQuery ''q-broken'' None (Some brokenSelector),
                    exampleQuery ''q-gold'' None (Some goldSelector),
                    exampleQuery ''q-paused'' (Some True) None] (exampleWorld, []) = (w', rs)"
      by (rule prod.exhaust)
    with lp have "rs = [requestOf ''q1'', requestOf ''q-paused'']"
      by (simp del: enqueueLoop.simps)
    with q l pair show ?thesis
      by (simp add: enqueueForService_def del: enqueueLoop.simps)
  qed
  have h: "EnqueueRequestsFromMapFunc exampleKube
             (enqueueForService exampleManifests exampleKube) exampleWorld (DeleteEvent svcStrict) =
           (fst (enqueueForService exampleManifests exampleKube exampleWorld svcStrict),
            remdups (snd (enqueueForService exampleManifests exampleKube exampleWorld svcStrict)))"
    by (simp add: exampleKube_def split: prod.splits)
  have n: "requestOf ''q1'' \<noteq> requestOf ''q-paused''"
    by (simp add: requestOf_def)
  from w d c e h n show ?thesis
    by (simp add: serviceWatch_def)
qed

text \<open>
  C7, amended. For every update event of a service, the predicate of the service watch
  admits the event if and only if the new object matches the selector made of the required
  base labels and its labels or its generation differ from those of the old object. An
  update that changes neither labels nor generation, and an update whose new object does
  not match the base labels, never reach the handler: no request is enqueued and nothing
  else happens. A create, delete or generic event is admitted if and only if its object
  matches the base labels.
\<close>

theorem withPredicate_admits:
  assumes "withPredicate M K = Inr p"
  shows "\<exists>selector.
     LabelSelectorAsSelector K
       \<lparr>MatchLabels = requiredStoreServiceLabels M, MatchExpressions = []\<rparr> = Inr selector \<and>
     (\<forall>objectOld objectNew.
        p (UpdateEvent objectOld objectNew) =
          (Matches K selector (GetLabels objectNew) \<and>
           (GetLabels objectNew \<noteq> GetLabels objectOld \<or>
            GetGeneration objectNew \<noteq> GetGeneration objectOld))) \<and>
     (\<forall>w objectOld objectNew.
        GetLabels objectNew = GetLabels objectOld \<and>
        GetGeneration objectNew = GetGeneration objectOld \<longrightarrow>
          \<not> p (UpdateEvent objectOld objectNew) \<and>
          serviceWatch M K p w (UpdateEvent objectOld objectNew) = (w, [])) \<and>
     (\<forall>w objectOld objectNew.
        \<not> Matches K selector (GetLabels objectNew) \<longrightarrow>
          serviceWatch M K p w (UpdateEvent objectOld objectNew) = (w, [])) \<and>
     (\<forall>obj. p (CreateEvent obj) = Matches K selector (GetLabels obj)) \<and>
     (\<forall>obj. p (DeleteEvent obj) = Matches K selector (GetLabels obj)) \<and>
     (\<forall>obj. p (GenericEvent obj) = Matches K selector (GetLabels obj))"
proof -
  let ?ls = "\<lparr>MatchLabels = requiredStoreServiceLabels M, MatchExpressions = []\<rparr>"
  from assms obtain selector where sel: "LabelSelectorAsSelector K ?ls = Inr selector"
    by (cases "LabelSelectorAsSelector K ?ls")
       (simp_all add: withPredicate_def LabelSelectorPredicate_def)
  let ?sp = "NewPredicateFuncs (\<lambda>obj. Matches K selector (GetLabels obj))"
  from assms sel have p: "p = Or [And [?sp, LabelChangedPredicate],
                                   And [?sp, GenerationChangedPredicate, ?sp]]"
    by (simp add: withPredicate_def LabelSelectorPredicate_def Let_def)
  have upd: "\<And>objectOld objectNew. p (UpdateEvent objectOld objectNew) =
          (Matches K selector (GetLabels objectNew) \<and>
           (GetLabels objectNew \<noteq> GetLabels objectOld \<or>
            GetGeneration objectNew \<noteq> GetGeneration objectOld))"
    unfolding p Or2 And2 And3 by auto
  have same: "\<And>w objectOld objectNew.
        GetLabels objectNew = GetLabels objectOld \<and>
        GetGeneration objectNew = GetGeneration objectOld \<longrightarrow>
          \<not> p (UpdateEvent objectOld objectNew) \<and>
          serviceWatch M K p w (UpdateEvent objectOld objectNew) = (w, [])"
    by (simp add: upd serviceWatch_def)
  have nomatch: "\<And>w objectOld objectNew.
        \<not> Matches K selector (GetLabels objectNew) \<longrightarrow>
          serviceWatch M K p w (UpdateEvent objectOld objectNew) = (w, [])"
    by (simp add: upd serviceWatch_def)
  have cr: "\<And>obj. p (CreateEvent obj) = Matches K selector (GetLabels obj)"
    unfolding p Or2 And2 And3 by simp
  have de: "\<And>obj. p (DeleteEvent obj) = Matches K selector (GetLabels obj)"
    unfolding p Or2 And2 And3 by simp
  have ge: "\<And>obj. p (GenericEvent obj) = Matches K selector (GetLabels obj)"
    unfolding p Or2 And2 And3 by simp
  from sel upd same nomatch cr de ge show ?thesis by blast
qed

theorem withPredicate_admits_witness:
  "withPredicate exampleManifests exampleKube =
     Inr (projr (withPredicate exampleManifests exampleKube))
   \<and> \<not> projr (withPredicate exampleManifests exampleKube) (UpdateEvent svcStrict svcStrict)
   \<and> serviceWatch exampleManifests exampleKube
         (projr (withPredicate exampleManifests exampleKube)) exampleWorld
         (UpdateEvent svcStrict svcStrict) = (exampleWorld, [])
   \<and> projr (withPredicate exampleManifests exampleKube)
         (UpdateEvent svcStrict (svcStrict\<lparr>Generation := 2\<rparr>))
   \<and> projr (withPredicate exampleManifests exampleKube)
         (UpdateEvent svcStrict
            (svcStrict\<lparr>ObjectMeta.Labels := (GetLabels svcStrict)(''tier'' \<mapsto> ''gold'')\<rparr>))
   \<and> \<not> projr (withPredicate exampleManifests exampleKube)
         (UpdateEvent svcStrict (svcStrict\<lparr>ObjectMeta.Labels := Map.empty\<rparr>))
   \<and> serviceWatch exampleManifests exampleKube
         (projr (withPredicate exampleManifests exampleKube)) exampleWorld
         (UpdateEvent svcStrict (svcStrict\<lparr>ObjectMeta.Labels := Map.empty\<rparr>)) =
       (exampleWorld, [])
   \<and> projr (withPredicate exampleManifests exampleKube) (CreateEvent svcStrict)
   \<and> \<not> projr (withPredicate exampleManifests exampleKube)
         (CreateEvent (svcStrict\<lparr>ObjectMeta.Labels := Map.empty\<rparr>))"
proof -
  let ?p = "projr (withPredicate exampleManifests exampleKube)"
  have w: "withPredicate exampleManifests exampleKube = Inr ?p"
    by (simp add: withPredicate_def LabelSelectorPredicate_def exampleKube_def Let_def)
  have sel: "LabelSelectorAsSelector exampleKube
       \<lparr>MatchLabels = requiredStoreServiceLabels exampleManifests, MatchExpressions = []\<rparr> =
       Inr baseLabels"
    by (simp add: exampleKube_def exampleManifests_def requiredStoreServiceLabels_def baseLabels_def)
  have m: "Matches exampleKube baseLabels (GetLabels svcStrict)"
    "Matches exampleKube baseLabels ((GetLabels svcStrict)(''tier'' \<mapsto> ''gold''))"
    "\<not> Matches exampleKube baseLabels Map.empty"
    by (simp_all add: exampleKube_def svcStrict_def baseLabels_def map_le_def)
  have d: "(GetLabels svcStrict)(''tier'' \<mapsto> ''gold'') \<noteq> GetLabels svcStrict"
  proof
    assume "(GetLabels svcStrict)(''tier'' \<mapsto> ''gold'') = GetLabels svcStrict"
    then have "((GetLabels svcStrict)(''tier'' \<mapsto> ''gold'')) ''tier'' = GetLabels svcStrict ''tier''"
      by simp
    then show False by (simp add: svcStrict_def baseLabels_def)
  qed
  from withPredicate_admits [OF w] sel m d show ?thesis
    using w by (auto simp: svcStrict_def)
qed

text \<open>
  C8. For a changed service that is not a store-API service with a gRPC port,
  \<^verbatim>\<open>enqueueForService\<close> returns no request, at once and with no effect. Otherwise, with the
  ThanosQuery instances listed in the namespace of the service, it returns exactly one
  request for each listed instance whose effective selector (built from its override and
  the base labels) matches the labels of the service, in the order of the listing; an
  instance whose selector fails to build is passed over, and the others are still served.
  The watch counter grows by the number of requests.
\<close>

theorem enqueueForService_requests:
  "(\<not> isQueueableStoreService M obj \<longrightarrow> enqueueForService M K w obj = (w, []))
   \<and> (isQueueableStoreService M obj \<and>
       ListThanosQueries K (cluster w) (GetNamespace obj) = Inr items \<longrightarrow>
         snd (enqueueForService M K w obj) =
           map requestFor (filter (selectsService M K obj) items) \<and>
         ServiceWatchesReconciliationsTotal (fst (enqueueForService M K w obj)) =
           ServiceWatchesReconciliationsTotal w +
           int (length (filter (selectsService M K obj) items)))"
proof (intro conjI impI)
  assume "\<not> isQueueableStoreService M obj"
  then show "enqueueForService M K w obj = (w, [])"
    by (simp add: enqueueForService_def)
next
  assume a: "isQueueableStoreService M obj \<and>
       ListThanosQueries K (cluster w) (GetNamespace obj) = Inr items"
  obtain w' requests where l: "enqueueLoop M K obj items (w, []) = (w', requests)"
    by (cases "enqueueLoop M K obj items (w, [])")
  have r: "requests = map requestFor (filter (selectsService M K obj) items)"
    using enqueueLoop_requests [of M K obj items w "[]"] l by simp
  have c: "ServiceWatchesReconciliationsTotal w' = ServiceWatchesReconciliationsTotal w"
    using enqueueLoop_frame [of M K obj items w "[]"] l by simp
  from a l r show "snd (enqueueForService M K w obj) =
           map requestFor (filter (selectsService M K obj) items)"
    by (simp add: enqueueForService_def)
  from a l r c show "ServiceWatchesReconciliationsTotal (fst (enqueueForService M K w obj)) =
           ServiceWatchesReconciliationsTotal w +
           int (length (filter (selectsService M K obj) items))"
    by (simp add: enqueueForService_def)
qed

theorem enqueueForService_requests_witness:
  "\<not> isQueueableStoreService exampleManifests svcNoGrpc
   \<and> enqueueForService exampleManifests exampleKube exampleWorld svcNoGrpc = (exampleWorld, [])
   \<and> isQueueableStoreService exampleManifests svcStrict
   \<and> ListThanosQueries exampleKube (cluster exampleWorld) (GetNamespace svcStrict) =
       Inr [exampleQuery ''q1'' None None,
            exampleQuery ''q-broken'' None (Some brokenSelector),
            exampleQuery ''q-gold'' None (Some goldSelector),
            exampleQuery ''q-paused'' (Some True) None]
   \<and> snd (enqueueForService exampleManifests exampleKube exampleWorld svcStrict) =
       [requestOf ''q1'', requestOf ''q-paused'']
   \<and> ServiceWatchesReconciliationsTotal
         (fst (enqueueForService exampleManifests exampleKube exampleWorld svcStrict)) = 2"
proof -
  let ?items = "[exampleQuery ''q1'' None None,
            exampleQuery ''q-broken'' None (Some brokenSelector),
            exampleQuery ''q-gold'' None (Some goldSelector),
            exampleQuery ''q-paused'' (Some True) None]"
  have nq: "\<not> isQueueableStoreService exampleManifests svcNoGrpc"
    by (simp add: isQueueableStoreService_def exampleManifests_def svcNoGrpc_def)
  have q: "isQueueableStoreService exampleManifests svcStrict"
    by (simp add: isQueueableStoreService_def exampleManifests_def svcStrict_def)
  have l: "ListThanosQueries exampleKube (cluster exampleWorld) (GetNamespace svcStrict) = Inr ?items"
    by (simp add: exampleKube_def svcStrict_def)
  have s1: "selectsService exampleManifests exampleKube svcStrict (exampleQuery ''q1'' None None)"
    by (simp add: selectsService_def exampleManifests_def exampleKube_def exampleQuery_def
          querySpec_def svcStrict_def baseLabels_def requiredStoreServiceLabels_def map_le_def)
  have s2: "\<not> selectsService exampleManifests exampleKube svcStrict
               (exampleQuery ''q-broken'' None (Some brokenSelector))"
    by (simp add: selectsService_def exampleManifests_def exampleQuery_def
          querySpec_def brokenSelector_def)
  have s3: "\<not> selectsService exampleManifests exampleKube svcStrict
               (exampleQuery ''q-gold'' None (Some goldSelector))"
    by (simp add: selectsService_def exampleManifests_def exampleKube_def exampleQuery_def
          querySpec_def svcStrict_def baseLabels_def requiredStoreServiceLabels_def map_le_def
          goldSelector_def)
  have s4: "selectsService exampleManifests exampleKube svcStrict
               (exampleQuery ''q-paused'' (Some True) None)"
    by (simp add: selectsService_def exampleManifests_def exampleKube_def exampleQuery_def
          querySpec_def svcStrict_def baseLabels_def requiredStoreServiceLabels_def map_le_def)
  have r: "requestFor (exampleQuery ''q1'' None None) = requestOf ''q1''"
    "requestFor (exampleQuery ''q-paused'' (Some True) None) = requestOf ''q-paused''"
    by (simp_all add: requestFor_def requestOf_def exampleQuery_def)
  have c: "ServiceWatchesReconciliationsTotal exampleWorld = 0"
    by (simp add: exampleWorld_def)
  show ?thesis
    using enqueueForService_requests [of exampleManifests svcNoGrpc exampleKube exampleWorld ?items]
          enqueueForService_requests [of exampleManifests svcStrict exampleKube exampleWorld ?items]
          nq q l s1 s2 s3 s4 r c
    by simp
qed

text \<open>
  C9. If listing the ThanosQuery instances in the namespace of the service fails,
  \<^verbatim>\<open>enqueueForService\<close> returns no request: there is no error among its results, and it
  leaves the world as it was, with no log line and no counter changed.
\<close>

theorem enqueueForService_list_failure:
  "ListThanosQueries K (cluster w) (GetNamespace obj) = Inl err \<Longrightarrow>
     enqueueForService M K w obj = (w, [])"
  by (simp add: enqueueForService_def)

theorem enqueueForService_list_failure_witness:
  "ListThanosQueries exampleKube (cluster exampleWorld)
     (GetNamespace (svcStrict\<lparr>ObjectMeta.Namespace := ''ns-b''\<rparr>)) =
       Inl (ApiError ''connection refused'')
   \<and> isQueueableStoreService exampleManifests (svcStrict\<lparr>ObjectMeta.Namespace := ''ns-b''\<rparr>)
   \<and> enqueueForService exampleManifests exampleKube exampleWorld
         (svcStrict\<lparr>ObjectMeta.Namespace := ''ns-b''\<rparr>) = (exampleWorld, [])"
proof -
  have l: "ListThanosQueries exampleKube (cluster exampleWorld)
     (GetNamespace (svcStrict\<lparr>ObjectMeta.Namespace := ''ns-b''\<rparr>)) =
       Inl (ApiError ''connection refused'')"
    by (simp add: exampleKube_def svcStrict_def)
  have q: "isQueueableStoreService exampleManifests (svcStrict\<lparr>ObjectMeta.Namespace := ''ns-b''\<rparr>)"
    by (simp add: isQueueableStoreService_def exampleManifests_def svcStrict_def)
  show ?thesis
    using enqueueForService_list_failure [OF l, of exampleManifests] l q by simp
qed

end
